theory Spec2Isabelle
  imports Main
begin

section \<open>JavaScript values, errors and effects\<close>

text \<open>
  The repository holds a Shopify webhook handler (the script \<^verbatim>\<open>webhook-handler.js\<close>,
  kept in \<^verbatim>\<open>Componente_react/product-list/README.md\<close>) and a React component
  (\<^verbatim>\<open>ProductList.jsx\<close>). Both work on values decoded from JSON. A JSON number is
  an \<open>int\<close> here: the payloads carry identifiers and counts, which the webhook handler
  only passes on; the component computes with one, within the integers a double holds
  exactly (\<open>js_number\<close> below). An object is the list
  of its members as the parser produced it, one entry per key.
\<close>

datatype json =
    JNull
  | JBool bool
  | JNum int
  | JStr string
  | JArr "json list"
  | JObj "(string \<times> json) list"

text \<open>What an expression evaluates to: a JSON value or \<^verbatim>\<open>undefined\<close>.\<close>

datatype jsval = Undefined | Val json

text \<open>
  A thrown exception, by constructor, with its \<^verbatim>\<open>message\<close>. The text of an
  exception the engine or Node throws is the engine's; only its kind matters below.
\<close>

datatype js_error =
    Error string
  | TypeError string
  | RangeError string
  | SyntaxError string
  | AbortError string

fun message :: "js_error \<Rightarrow> string" where
  "message (Error m) = m"
| "message (TypeError m) = m"
| "message (RangeError m) = m"
| "message (SyntaxError m) = m"
| "message (AbortError m) = m"

text \<open>
  The property read \<^verbatim>\<open>v.k\<close>, for the keys the program reads (none of them is a
  member of a built-in prototype): it throws on \<^verbatim>\<open>null\<close>, and gives
  \<^verbatim>\<open>undefined\<close> on a missing key and on a number, string, boolean or array.
\<close>

fun get_prop :: "json \<Rightarrow> string \<Rightarrow> js_error + jsval" where
  "get_prop JNull k = Inl (TypeError ''Cannot read properties of null'')"
| "get_prop (JObj kvs) k = Inr (case map_of kvs k of None \<Rightarrow> Undefined | Some v \<Rightarrow> Val v)"
| "get_prop (JBool b) k = Inr Undefined"
| "get_prop (JNum n) k = Inr Undefined"
| "get_prop (JStr s) k = Inr Undefined"
| "get_prop (JArr vs) k = Inr Undefined"

text \<open>JavaScript's truthiness, as \<^verbatim>\<open>!x\<close> and \<^verbatim>\<open>x || y\<close> test it.\<close>

fun truthy :: "jsval \<Rightarrow> bool" where
  "truthy Undefined = False"
| "truthy (Val JNull) = False"
| "truthy (Val (JBool b)) = b"
| "truthy (Val (JNum n)) = (n \<noteq> 0)"
| "truthy (Val (JStr s)) = (s \<noteq> [])"
| "truthy (Val (JArr vs)) = True"
| "truthy (Val (JObj kvs)) = True"

text \<open>A header read with \<^verbatim>\<open>req.get\<close>: the string, or \<^verbatim>\<open>undefined\<close>.\<close>

fun opt_str :: "string option \<Rightarrow> jsval" where
  "opt_str None = Undefined"
| "opt_str (Some s) = Val (JStr s)"

text \<open>
  An object literal sent as JSON (\<^verbatim>\<open>res.json\<close>): a member whose value is
  \<^verbatim>\<open>undefined\<close> is left out by \<^verbatim>\<open>JSON.stringify\<close>.
\<close>

fun object_literal :: "(string \<times> jsval) list \<Rightarrow> (string \<times> json) list" where
  "object_literal [] = []"
| "object_literal ((k, Undefined) # kvs) = object_literal kvs"
| "object_literal ((k, Val v) # kvs) = (k, v) # object_literal kvs"

subsection \<open>Jobs and the trace of effects\<close>

text \<open>
  The data and the options of a job, as \<^verbatim>\<open>processWebhookAsync\<close> passes them to
  \<^verbatim>\<open>orderProcessingQueue.add\<close> (the time stamp \<^verbatim>\<open>receivedAt\<close> is left out).
\<close>

record job_data =
  payload :: json
  topic :: "string option"
  shopDomain :: "string option"

record job_options =
  attempts :: nat
  backoff_type :: string
  backoff_delay :: nat
  removeOnComplete :: bool
  removeOnFail :: bool

datatype level = Info | Warn | Err | Critical

text \<open>
  Every function returns the effects it performs, in order: a call of the logger (level,
  message, and the members of its context object that come from the data; time stamps,
  the peer address, stack traces and the pretty-printed payload are left out), a response
  sent with \<^verbatim>\<open>res.status(s).json(b)\<close>, a job added to the queue (with the id the
  queue gave it), a \<^verbatim>\<open>sleep\<close>, and a call of the internal system.
\<close>

datatype event =
    Log level string "(string \<times> jsval) list"
  | Respond nat json
  | Enqueued nat job_data job_options
  | Sleep nat
  | InternalSync jsval

fun responses :: "event list \<Rightarrow> (nat \<times> json) list" where
  "responses [] = []"
| "responses (Respond s b # evs) = (s, b) # responses evs"
| "responses (Log l m c # evs) = responses evs"
| "responses (Enqueued i d opts # evs) = responses evs"
| "responses (Sleep ms # evs) = responses evs"
| "responses (InternalSync v # evs) = responses evs"

fun enqueued :: "event list \<Rightarrow> (nat \<times> job_data \<times> job_options) list" where
  "enqueued [] = []"
| "enqueued (Enqueued i d opts # evs) = (i, d, opts) # enqueued evs"
| "enqueued (Log l m c # evs) = enqueued evs"
| "enqueued (Respond s b # evs) = enqueued evs"
| "enqueued (Sleep ms # evs) = enqueued evs"
| "enqueued (InternalSync v # evs) = enqueued evs"


text \<open>The calls of the internal system in a trace.\<close>

fun sync_calls :: "event list \<Rightarrow> jsval list" where
  "sync_calls [] = []"
| "sync_calls (InternalSync v # evs) = v # sync_calls evs"
| "sync_calls (Log l m c # evs) = sync_calls evs"
| "sync_calls (Respond s b # evs) = sync_calls evs"
| "sync_calls (Enqueued i d opts # evs) = sync_calls evs"
| "sync_calls (Sleep ms # evs) = sync_calls evs"

section \<open>The webhook handler\<close>

subsection \<open>Configuration and environment\<close>

definition MAX_RETRIES :: nat where
  "MAX_RETRIES = 5"

definition INITIAL_RETRY_DELAY :: nat where
  "INITIAL_RETRY_DELAY = 1000"

text \<open>
  What the handler takes from outside the repository is a parameter:
  \<^item> \<open>SHOPIFY_WEBHOOK_SECRET\<close>: the environment variable, \<open>None\<close> when it is unset;
  \<^item> \<open>hmac_sha256_base64 key data\<close>: Node's
    \<^verbatim>\<open>crypto.createHmac('sha256', key).update(data).digest('base64')\<close>;
  \<^item> \<open>JSON_parse\<close>: \<^verbatim>\<open>JSON.parse\<close> on the bytes of the body, \<open>None\<close> when it
    throws a SyntaxError;
  \<^item> \<open>queue_add\<close>: \<^verbatim>\<open>orderProcessingQueue.add('process-order', data, opts)\<close> of the
    module \<^verbatim>\<open>./queue-system\<close>: the id of the new job, or the error it throws when the
    queue is unavailable.
\<close>

record env =
  SHOPIFY_WEBHOOK_SECRET :: "string option"
  hmac_sha256_base64 :: "string \<Rightarrow> string \<Rightarrow> string"
  JSON_parse :: "string \<Rightarrow> json option"
  queue_add :: "job_data \<Rightarrow> job_options \<Rightarrow> js_error + nat"

text \<open>
  A request of content type \<^verbatim>\<open>application/json\<close> as the route sees it after
  \<^verbatim>\<open>express.raw\<close>: the three headers it reads and the body as the bytes received
  (a \<^verbatim>\<open>Buffer\<close>). A header arrives as Latin-1, one \<open>char\<close> per character.
\<close>

record request =
  hmac_header :: "string option"
  topic_header :: "string option"
  shop_header :: "string option"
  raw_body :: string

subsection \<open>Buffers and the constant-time comparison\<close>

text \<open>
  \<^verbatim>\<open>Buffer.from(s)\<close> encodes a string in UTF-8: a character below 128 is one byte,
  a character from 128 to 255 is two. \<^verbatim>\<open>crypto.timingSafeEqual(a, b)\<close> throws a
  RangeError when the two buffers differ in byte length, and compares them otherwise.
\<close>

fun utf8 :: "char \<Rightarrow> nat list" where
  "utf8 c =
     (let n = (of_char c :: nat)
      in if n < 128 then [n] else [192 + n div 64, 128 + n mod 64])"

definition Buffer_from :: "string \<Rightarrow> nat list" where
  "Buffer_from s = concat (map utf8 s)"

definition timingSafeEqual :: "nat list \<Rightarrow> nat list \<Rightarrow> js_error + bool" where
  "timingSafeEqual a b =
     (if length a \<noteq> length b
      then Inl (RangeError ''Input buffers must have the same byte length'')
      else Inr (a = b))"

subsection \<open>verifyShopifyWebhook\<close>

definition missing_hmac :: "event list \<times> json option" where
  "missing_hmac =
     ([Log Warn ''Webhook received without HMAC header'' [],
       Respond 401 (JObj [(''error'', JStr ''Missing HMAC signature'')])],
      None)"

definition invalid_hmac :: "string \<Rightarrow> event list \<times> json option" where
  "invalid_hmac hmacHeader =
     ([Log Err ''Invalid HMAC signature'' [(''receivedHmac'', Val (JStr hmacHeader))],
       Respond 401 (JObj [(''error'', JStr ''Invalid HMAC signature'')])],
      None)"

text \<open>
  The body of the \<^verbatim>\<open>try\<close> block: \<open>Inl\<close> is an exception thrown inside it. The
  second component of a result is the payload with which \<^verbatim>\<open>next()\<close> is called, or
  \<open>None\<close> when the middleware has answered the request itself.
\<close>

definition verify_try :: "env \<Rightarrow> request \<Rightarrow> js_error + (event list \<times> json option)" where
  "verify_try env req =
     (case hmac_header req of
        None \<Rightarrow> Inr missing_hmac
      | Some hmacHeader \<Rightarrow>
          if hmacHeader = [] then Inr missing_hmac
          else
            (case SHOPIFY_WEBHOOK_SECRET env of
               None \<Rightarrow> Inl (TypeError ''The key argument must be of type string'')
             | Some secret \<Rightarrow>
                 (let hash = hmac_sha256_base64 env secret (raw_body req)
                  in case timingSafeEqual (Buffer_from hash) (Buffer_from hmacHeader) of
                       Inl e \<Rightarrow> Inl e
                     | Inr verified \<Rightarrow>
                         if \<not> verified then Inr (invalid_hmac hmacHeader)
                         else
                           (case JSON_parse env (raw_body req) of
                              None \<Rightarrow> Inl (SyntaxError ''Unexpected token in JSON'')
                            | Some p \<Rightarrow>
                                Inr ([Log Info ''HMAC signature verified successfully''
                                        [(''topic'', opt_str (topic_header req)),
                                         (''shop'', opt_str (shop_header req))]],
                                     Some p)))))"

definition verifyShopifyWebhook :: "env \<Rightarrow> request \<Rightarrow> event list \<times> json option" where
  "verifyShopifyWebhook env req =
     (case verify_try env req of
        Inr r \<Rightarrow> r
      | Inl error \<Rightarrow>
          ([Log Err ''Error verifying webhook'' [(''error'', Val (JStr (message error)))],
            Respond 500 (JObj [(''error'', JStr ''Internal server error'')])],
           None))"

subsection \<open>The route and processWebhookAsync\<close>

definition job_opts :: job_options where
  "job_opts =
     \<lparr>attempts = MAX_RETRIES, backoff_type = ''exponential'',
      backoff_delay = INITIAL_RETRY_DELAY, removeOnComplete = False, removeOnFail = False\<rparr>"

text \<open>
  \<^verbatim>\<open>processWebhookAsync\<close>: the job is added first; both the log line after it and
  the one in the \<^verbatim>\<open>catch\<close> read \<^verbatim>\<open>payload.id\<close>, which throws on a null payload.
  The error is thrown again to the caller.
\<close>

definition processWebhookAsync ::
  "env \<Rightarrow> json \<Rightarrow> string option \<Rightarrow> string option \<Rightarrow> event list \<times> (js_error + unit)" where
  "processWebhookAsync env pl tp shop =
     (let d = \<lparr>payload = pl, topic = tp, shopDomain = shop\<rparr>
      in case queue_add env d job_opts of
           Inr jobId \<Rightarrow>
             (case get_prop pl ''id'' of
                Inr orderId \<Rightarrow>
                  ([Enqueued jobId d job_opts,
                    Log Info ''Job added to queue''
                      [(''jobId'', Val (JNum (int jobId))), (''orderId'', orderId)]],
                   Inr ())
              | Inl e \<Rightarrow> ([Enqueued jobId d job_opts], Inl e))
         | Inl error \<Rightarrow>
             (case get_prop pl ''id'' of
                Inr orderId \<Rightarrow>
                  ([Log Err ''Error adding job to queue''
                      [(''error'', Val (JStr (message error))), (''orderId'', orderId)]],
                   Inl error)
              | Inl e \<Rightarrow> ([], Inl e)))"

text \<open>
  The route's callback, run when the middleware has called \<^verbatim>\<open>next()\<close>. Its
  \<^verbatim>\<open>catch\<close> only logs: it sends no response.
\<close>

definition route_catch :: "js_error \<Rightarrow> event list" where
  "route_catch error =
     [Log Err ''Error processing webhook'' [(''error'', Val (JStr (message error)))]]"

definition orders_route :: "env \<Rightarrow> request \<Rightarrow> json \<Rightarrow> event list" where
  "orders_route env req pl =
     (case get_prop pl ''id'' of
        Inl error \<Rightarrow> route_catch error
      | Inr orderId \<Rightarrow>
          (case get_prop pl ''order_number'' of
             Inl error \<Rightarrow> route_catch error
           | Inr orderNumber \<Rightarrow>
               [Log Info ''Webhook received''
                  [(''topic'', opt_str (topic_header req)),
                   (''shopDomain'', opt_str (shop_header req)),
                   (''orderId'', orderId), (''orderNumber'', orderNumber)],
                Respond 200
                  (JObj (object_literal [(''received'', Val (JBool True)), (''orderId'', orderId)]))]
               @ (case processWebhookAsync env pl (topic_header req) (shop_header req) of
                    (evs, Inr u) \<Rightarrow> evs
                  | (evs, Inl error) \<Rightarrow> evs @ route_catch error)))"

text \<open>\<^verbatim>\<open>POST /webhooks/shopify/orders\<close>: the middleware, then the callback.\<close>

definition post_webhooks_shopify_orders :: "env \<Rightarrow> request \<Rightarrow> event list" where
  "post_webhooks_shopify_orders env req =
     (case verifyShopifyWebhook env req of
        (evs, None) \<Rightarrow> evs
      | (evs, Some pl) \<Rightarrow> evs @ orders_route env req pl)"

subsection \<open>Actions: a trace of effects and a result or an exception\<close>

type_synonym 'a action = "event list \<times> (js_error + 'a)"

definition ok :: "'a \<Rightarrow> 'a action" where
  "ok x = ([], Inr x)"

definition emit :: "event \<Rightarrow> unit action" where
  "emit ev = ([ev], Inr ())"

definition evaluate :: "js_error + 'a \<Rightarrow> 'a action" where
  "evaluate r = ([], r)"

text \<open>Sequencing: an exception ends the sequence, the effects so far are kept.\<close>

fun then_do :: "'a action \<Rightarrow> ('a \<Rightarrow> 'b action) \<Rightarrow> 'b action" where
  "then_do (evs, Inl e) f = (evs, Inl e)"
| "then_do (evs, Inr x) f = (evs @ fst (f x), snd (f x))"

text \<open>\<^verbatim>\<open>String(n)\<close> of an integer: its decimal digits, with a minus sign if negative.\<close>

definition digit :: "nat \<Rightarrow> char" where
  "digit d = ''0123456789'' ! (d mod 10)"

fun digits :: "nat \<Rightarrow> string" where
  "digits n = (if n < 10 then [digit n] else digits (n div 10) @ [digit n])"

definition String_of_int :: "int \<Rightarrow> string" where
  "String_of_int i = (if i < 0 then CHR ''-'' # digits (nat (- i)) else digits (nat i))"

subsection \<open>syncOrderToInternalSystem\<close>

record line_item =
  productId :: jsval
  variantId :: jsval
  quantity :: jsval
  title :: jsval

text \<open>
  The object \<^verbatim>\<open>handleOrderCreate\<close> builds for the internal system (the two prices,
  parsed with \<^verbatim>\<open>parseFloat\<close>, are left out).
\<close>

record order_data =
  shopifyOrderId :: jsval
  orderNumber :: jsval
  customerEmail :: jsval
  currency :: jsval
  lineItems :: "line_item list"
  shippingAddress :: jsval
  billingAddress :: jsval
  createdAt :: jsval

definition maxRetries :: nat where
  "maxRetries = 3"

text \<open>
  The \<^verbatim>\<open>for\<close> loop of \<^verbatim>\<open>syncOrderToInternalSystem\<close>, from index \<open>i\<close> on. The body
  of its \<^verbatim>\<open>try\<close> block stands for the call of the internal system, which the
  source simulates (the \<^verbatim>\<open>fetch\<close> is commented out): \<open>call i\<close> is what that
  call does in iteration \<open>i\<close>, \<open>None\<close> when it completes and \<open>Some e\<close> when it
  throws \<open>e\<close>. Each execution of the body is the effect \<open>InternalSync\<close>.
\<close>

function sync_loop ::
  "(nat \<Rightarrow> js_error option) \<Rightarrow> order_data \<Rightarrow> nat \<Rightarrow> js_error option \<Rightarrow> bool action" where
  "sync_loop call orderData i lastError =
     (if i < maxRetries then
        (case call i of
           None \<Rightarrow>
             ([InternalSync (shopifyOrderId orderData),
               Log Info ''Order synced successfully''
                 [(''orderId'', shopifyOrderId orderData),
                  (''attempt'', Val (JNum (int (i + 1))))]],
              Inr True)
         | Some error \<Rightarrow>
             apfst
               ((@) (InternalSync (shopifyOrderId orderData) #
                     (if i < maxRetries - 1
                      then [Log Warn ''Retry sync after error''
                              [(''orderId'', shopifyOrderId orderData),
                               (''attempt'', Val (JNum (int (i + 1)))),
                               (''delay'', Val (JNum (int (2 ^ i * 1000)))),
                               (''error'', Val (JStr (message error)))],
                            Sleep (2 ^ i * 1000)]
                      else [])))
               (sync_loop call orderData (i + 1) (Some error)))
      else
        (case lastError of
           None \<Rightarrow> ([], Inl (TypeError ''Cannot read properties of undefined''))
         | Some e \<Rightarrow>
             ([], Inl (Error (''Failed to sync after '' @ String_of_int (int maxRetries)
                              @ '' attempts: '' @ message e)))))"
  by pat_completeness auto
termination
  by (relation "measure (\<lambda>(call, orderData, i, lastError). maxRetries - i)") auto

definition syncOrderToInternalSystem ::
  "(nat \<Rightarrow> js_error option) \<Rightarrow> order_data \<Rightarrow> bool action" where
  "syncOrderToInternalSystem call orderData = sync_loop call orderData 0 None"

subsection \<open>The handlers of the four topics\<close>

text \<open>
  \<^verbatim>\<open>payload.line_items.map(item => ...)\<close>: it throws a TypeError unless
  \<^verbatim>\<open>line_items\<close> is an array, and on an item that is \<^verbatim>\<open>null\<close>.
\<close>

definition line_item_of :: "json \<Rightarrow> js_error + line_item" where
  "line_item_of item =
     (case get_prop item ''product_id'' of
        Inl e \<Rightarrow> Inl e
      | Inr pid \<Rightarrow>
     (case get_prop item ''variant_id'' of
        Inl e \<Rightarrow> Inl e
      | Inr vid \<Rightarrow>
     (case get_prop item ''quantity'' of
        Inl e \<Rightarrow> Inl e
      | Inr qty \<Rightarrow>
     (case get_prop item ''title'' of
        Inl e \<Rightarrow> Inl e
      | Inr ttl \<Rightarrow>
          Inr \<lparr>productId = pid, variantId = vid, quantity = qty, title = ttl\<rparr>))))"

fun map_line_items :: "json list \<Rightarrow> js_error + line_item list" where
  "map_line_items [] = Inr []"
| "map_line_items (item # items) =
     (case line_item_of item of
        Inl e \<Rightarrow> Inl e
      | Inr li \<Rightarrow>
          (case map_line_items items of
             Inl e \<Rightarrow> Inl e
           | Inr rest \<Rightarrow> Inr (li # rest)))"

definition line_items_of :: "json \<Rightarrow> js_error + line_item list" where
  "line_items_of pl =
     (case get_prop pl ''line_items'' of
        Inl e \<Rightarrow> Inl e
      | Inr Undefined \<Rightarrow> Inl (TypeError ''Cannot read properties of undefined'')
      | Inr (Val JNull) \<Rightarrow> Inl (TypeError ''Cannot read properties of null'')
      | Inr (Val (JArr items)) \<Rightarrow> map_line_items items
      | Inr (Val v) \<Rightarrow> Inl (TypeError ''payload.line_items.map is not a function''))"

definition order_data_of :: "json \<Rightarrow> js_error + order_data" where
  "order_data_of pl =
     (case get_prop pl ''id'' of
        Inl e \<Rightarrow> Inl e
      | Inr oid \<Rightarrow>
     (case get_prop pl ''order_number'' of
        Inl e \<Rightarrow> Inl e
      | Inr onum \<Rightarrow>
     (case get_prop pl ''email'' of
        Inl e \<Rightarrow> Inl e
      | Inr email \<Rightarrow>
     (case get_prop pl ''currency'' of
        Inl e \<Rightarrow> Inl e
      | Inr cur \<Rightarrow>
     (case line_items_of pl of
        Inl e \<Rightarrow> Inl e
      | Inr items \<Rightarrow>
     (case get_prop pl ''shipping_address'' of
        Inl e \<Rightarrow> Inl e
      | Inr ship \<Rightarrow>
     (case get_prop pl ''billing_address'' of
        Inl e \<Rightarrow> Inl e
      | Inr bill \<Rightarrow>
     (case get_prop pl ''created_at'' of
        Inl e \<Rightarrow> Inl e
      | Inr created \<Rightarrow>
          Inr \<lparr>shopifyOrderId = oid, orderNumber = onum, customerEmail = email,
               currency = cur, lineItems = items, shippingAddress = ship,
               billingAddress = bill, createdAt = created\<rparr>))))))))"

definition handleOrderCreate :: "(nat \<Rightarrow> js_error option) \<Rightarrow> json \<Rightarrow> unit action" where
  "handleOrderCreate call pl =
     then_do (evaluate (get_prop pl ''id'')) (\<lambda>orderId.
     then_do (evaluate (get_prop pl ''order_number'')) (\<lambda>orderNumber.
     then_do (evaluate (get_prop pl ''total_price'')) (\<lambda>totalPrice.
     then_do (emit (Log Info ''Handling order creation''
                [(''orderId'', orderId), (''orderNumber'', orderNumber),
                 (''totalPrice'', totalPrice)])) (\<lambda>u.
     then_do (evaluate (order_data_of pl)) (\<lambda>orderData.
     then_do (syncOrderToInternalSystem call orderData) (\<lambda>synced.
     emit (Log Info ''Order synced to internal system'' [(''orderId'', orderId)])))))))"

definition handleOrderUpdate :: "json \<Rightarrow> unit action" where
  "handleOrderUpdate pl =
     then_do (evaluate (get_prop pl ''id'')) (\<lambda>orderId.
     then_do (emit (Log Info ''Handling order update'' [(''orderId'', orderId)])) (\<lambda>u.
     then_do (evaluate (get_prop pl ''financial_status'')) (\<lambda>fin.
     then_do (evaluate (get_prop pl ''fulfillment_status'')) (\<lambda>ful.
     then_do (evaluate (get_prop pl ''updated_at'')) (\<lambda>upd.
     emit (Log Info ''Updating order''
             [(''orderId'', orderId),
              (''updates'', Val (JObj (object_literal
                 [(''status'', fin), (''fulfillmentStatus'', ful), (''updatedAt'', upd)])))]))))))"

definition handleOrderPaid :: "json \<Rightarrow> unit action" where
  "handleOrderPaid pl =
     then_do (evaluate (get_prop pl ''id'')) (\<lambda>orderId.
     then_do (emit (Log Info ''Handling order payment'' [(''orderId'', orderId)])) (\<lambda>u.
     then_do (emit (Log Info ''Marking order as paid'' [(''orderId'', orderId)])) (\<lambda>u.
     emit (Log Info ''Triggering fulfillment'' [(''orderId'', orderId)]))))"

definition handleOrderFulfilled :: "json \<Rightarrow> unit action" where
  "handleOrderFulfilled pl =
     then_do (evaluate (get_prop pl ''id'')) (\<lambda>orderId.
     then_do (emit (Log Info ''Handling order fulfillment'' [(''orderId'', orderId)])) (\<lambda>u.
     then_do (evaluate (get_prop pl ''fulfillments'')) (\<lambda>ful.
     then_do (emit (Log Info ''Updating fulfillment status''
                [(''orderId'', orderId), (''fulfillments'', ful)])) (\<lambda>u.
     then_do (evaluate (get_prop pl ''email'')) (\<lambda>email.
     emit (Log Info ''Sending customer notification''
             [(''email'', email), (''orderId'', orderId)]))))))"

subsection \<open>The queue processor\<close>

text \<open>
  A job as the processor reads it: \<^verbatim>\<open>job.id\<close>, \<^verbatim>\<open>job.data\<close> and
  \<^verbatim>\<open>job.attemptsMade\<close>, the number of attempts made before this one.
\<close>

record job =
  job_id :: nat
  data :: job_data
  attemptsMade :: nat

text \<open>The \<^verbatim>\<open>switch (topic)\<close> of the processor.\<close>

definition dispatch_topic ::
  "(nat \<Rightarrow> js_error option) \<Rightarrow> string option \<Rightarrow> json \<Rightarrow> unit action" where
  "dispatch_topic call tp pl =
     (if tp = Some ''orders/create'' then handleOrderCreate call pl
      else if tp = Some ''orders/updated'' then handleOrderUpdate pl
      else if tp = Some ''orders/paid'' then handleOrderPaid pl
      else if tp = Some ''orders/fulfilled'' then handleOrderFulfilled pl
      else emit (Log Warn ''Unknown webhook topic'' [(''topic'', opt_str tp)]))"

definition sendFailureAlert :: "(string \<times> jsval) list \<Rightarrow> event list" where
  "sendFailureAlert details =
     [Log Critical ''Webhook processing failed after all retries'' details]"

text \<open>
  The callback of \<^verbatim>\<open>orderProcessingQueue.process\<close>. The first log line, outside the
  \<^verbatim>\<open>try\<close>, reads \<^verbatim>\<open>payload.id\<close>; the \<^verbatim>\<open>catch\<close> logs, sends the alert on the
  last attempt, and throws the error again.
\<close>

definition process_order :: "(nat \<Rightarrow> js_error option) \<Rightarrow> job \<Rightarrow> json action" where
  "process_order call jb =
     (let pl = payload (data jb); tp = topic (data jb); shop = shopDomain (data jb);
          attemptNumber = attemptsMade jb + 1
      in then_do (evaluate (get_prop pl ''id'')) (\<lambda>orderId.
         then_do (emit (Log Info ''Processing order''
                    [(''jobId'', Val (JNum (int (job_id jb)))), (''orderId'', orderId),
                     (''attempt'', Val (JNum (int attemptNumber))),
                     (''maxAttempts'', Val (JNum (int MAX_RETRIES)))])) (\<lambda>u.
         (case then_do (dispatch_topic call tp pl) (\<lambda>u.
               then_do (emit (Log Info ''Order processed successfully''
                          [(''jobId'', Val (JNum (int (job_id jb)))), (''orderId'', orderId),
                           (''attempt'', Val (JNum (int attemptNumber)))])) (\<lambda>u.
               ok (JObj (object_literal [(''success'', Val (JBool True)), (''orderId'', orderId)]))))
          of
            (evs, Inr r) \<Rightarrow> (evs, Inr r)
          | (evs, Inl error) \<Rightarrow>
              (evs
               @ [Log Err ''Error processing order''
                    [(''jobId'', Val (JNum (int (job_id jb)))), (''orderId'', orderId),
                     (''attempt'', Val (JNum (int attemptNumber))),
                     (''maxAttempts'', Val (JNum (int MAX_RETRIES))),
                     (''error'', Val (JStr (message error)))]]
               @ (if attemptNumber \<ge> MAX_RETRIES
                  then sendFailureAlert
                         [(''orderId'', orderId), (''error'', Val (JStr (message error))),
                          (''attempts'', Val (JNum (int attemptNumber))),
                          (''shopDomain'', opt_str shop)]
                  else []),
               Inl error)))))"

subsection \<open>The queue\<close>

text \<open>
  The module \<^verbatim>\<open>./queue-system\<close>, which runs the processor and retries a failed job, is
  not among the files of the repository. The definitions of this subsection follow the
  specification's sections 3, 4.3 and 4.4; the attempt limit and the initial delay are the
  options \<open>attempts\<close> and \<open>backoff_delay\<close> that \<^verbatim>\<open>processWebhookAsync\<close> gives the job.
\<close>

text \<open>
  Modelled from the spec: the states of a Job and its record (section 3), missing with
  \<^verbatim>\<open>./queue-system\<close>: the job's id, the event it wraps, its state, the number of
  attempts started, the time before which it is not dispatched, and its last error.
\<close>

datatype job_state = Pending | Running | Succeeded | Failed | Exhausted

record queued_job =
  jobId :: nat
  job_event :: job_data
  state :: job_state
  attemptCount :: nat
  nextEligibleAt :: nat
  lastError :: "js_error option"

text \<open>
  Modelled from the spec: \<^verbatim>\<open>enqueue\<close> of the Job Queue (section 4.3), missing with
  \<^verbatim>\<open>./queue-system\<close>. A new job is Pending, has made no attempt and is eligible at once.
\<close>

definition enqueue :: "nat \<Rightarrow> nat \<Rightarrow> job_data \<Rightarrow> queued_job" where
  "enqueue jid now ev =
     \<lparr>jobId = jid, job_event = ev, state = Pending, attemptCount = 0,
      nextEligibleAt = now, lastError = None\<rparr>"

text \<open>
  Modelled from the spec: \<^verbatim>\<open>dequeueReady\<close> of the Job Queue (section 4.3), missing with
  \<^verbatim>\<open>./queue-system\<close>. It returns only a Pending job that is eligible, and makes it
  Running in the same step; \<open>attemptCount\<close> is incremented before the execution
  (section 3).
\<close>

definition dequeueReady :: "nat \<Rightarrow> queued_job \<Rightarrow> queued_job option" where
  "dequeueReady now j =
     (if state j = Pending \<and> nextEligibleAt j \<le> now
      then Some (j\<lparr>state := Running, attemptCount := attemptCount j + 1\<rparr>)
      else None)"

text \<open>
  Modelled from the spec: the Retry Scheduler (sections 4.4 and 8), missing with
  \<^verbatim>\<open>./queue-system\<close>. On success the job is Succeeded. On a failure the delay is
  \<open>initialDelay * 2^(attemptCount - 1)\<close> and \<open>nextEligibleAt\<close> is \<open>now + delay\<close>; the job
  is Pending again when \<open>attemptCount < maxAttempts\<close> and Exhausted when
  \<open>attemptCount = maxAttempts\<close>. Section 4.4 gives the delay for the failures that leave
  the job Pending and does not say what becomes of \<open>nextEligibleAt\<close> at the failure that
  exhausts it; section 8 lists a delta for each of the five failures of a job with the
  default configuration, the fifth of 16 s, so the eligibility time is set at every
  failure. An Exhausted job is not dispatched again, whatever that time. The
  notification of the Alerting Sink is the processor's own call of
  \<^verbatim>\<open>sendFailureAlert\<close>, in the source.
\<close>

definition retry_scheduler ::
  "job_options \<Rightarrow> nat \<Rightarrow> queued_job \<Rightarrow> js_error + json \<Rightarrow> queued_job" where
  "retry_scheduler opts now j outcome =
     (case outcome of
        Inr result \<Rightarrow> j\<lparr>state := Succeeded\<rparr>
      | Inl e \<Rightarrow>
          j\<lparr>state := (if attemptCount j < attempts opts then Pending else Exhausted),
            nextEligibleAt := now + backoff_delay opts * 2 ^ (attemptCount j - 1),
            lastError := Some e\<rparr>)"

text \<open>
  Modelled from the spec: the worker loop on one job (sections 2 and 5), missing with
  \<^verbatim>\<open>./queue-system\<close>. The job is taken as soon as it is eligible, the processor of the
  source runs on it with \<^verbatim>\<open>job.attemptsMade\<close> the number of earlier attempts, and the
  scheduler records the outcome; \<open>attemptCount\<close> never exceeds the limit. \<open>calls n\<close> is
  what the internal system does during attempt \<open>n\<close>, \<open>elapsed n\<close> the time attempt \<open>n\<close>
  takes. The result lists, for each attempt, the time its outcome was recorded, its
  effects, and the job as the scheduler left it.
\<close>

function run_job ::
  "(nat \<Rightarrow> nat \<Rightarrow> js_error option) \<Rightarrow> (nat \<Rightarrow> nat) \<Rightarrow> job_options \<Rightarrow> queued_job
     \<Rightarrow> (nat \<times> event list \<times> queued_job) list" where
  "run_job calls elapsed opts j =
     (case dequeueReady (nextEligibleAt j) j of
        None \<Rightarrow> []
      | Some r \<Rightarrow>
          if attempts opts < attemptCount r then []
          else
            (let res = process_order (calls (attemptCount r))
                         \<lparr>job_id = jobId r, data = job_event r, attemptsMade = attemptCount j\<rparr>;
                 now = nextEligibleAt j + elapsed (attemptCount r);
                 j' = retry_scheduler opts now r (snd res)
             in (now, fst res, j') # run_job calls elapsed opts j'))"
  by pat_completeness auto
termination
  by (relation "measure (\<lambda>(calls, elapsed, opts, j). attempts opts + 1 - attemptCount j)")
     (auto simp: dequeueReady_def retry_scheduler_def split: if_splits sum.splits)

section \<open>The product list component\<close>

definition itemsPerPage :: int where
  "itemsPerPage = 12"

text \<open>
  A JavaScript number is a double. The model follows a number as long as it is an integer
  of size at most \<^verbatim>\<open>Number.MAX_SAFE_INTEGER\<close>, \<open>2^53 - 1\<close>: a double holds such an
  integer exactly, a sum, difference or product of two of them that stays in the range is
  exact, and \<^verbatim>\<open>String\<close> prints it as its decimal digits. \<open>NaN\<close> is followed too.
  \<open>Inexact\<close> is any other double (a fraction, a larger integer, an infinity, or what is
  computed from one): the model says nothing about its value.
\<close>

definition MAX_SAFE_INTEGER :: int where
  "MAX_SAFE_INTEGER = 9007199254740991"

definition safe_integer :: "int \<Rightarrow> bool" where
  "safe_integer n = (- MAX_SAFE_INTEGER \<le> n \<and> n \<le> MAX_SAFE_INTEGER)"

datatype js_number = Exact int | NaN | Inexact

text \<open>The double that \<^verbatim>\<open>JSON.parse\<close> makes of an integer literal.\<close>

definition number :: "int \<Rightarrow> js_number" where
  "number n = (if safe_integer n then Exact n else Inexact)"

text \<open>
  What \<^verbatim>\<open>fetch\<close> and \<^verbatim>\<open>response.json()\<close> give: the promise is rejected with an
  exception (an \<open>AbortError\<close> when the request was aborted), or resolves to a response
  with \<^verbatim>\<open>ok\<close>, \<^verbatim>\<open>status\<close> (a 16-bit number), \<^verbatim>\<open>statusText\<close> and the outcome of
  \<^verbatim>\<open>json()\<close>.
\<close>

datatype fetch_outcome =
    Rejected js_error
  | Resolved bool nat string "js_error + json"

text \<open>
  The parameters of the component: the property \<^verbatim>\<open>apiUrl\<close>, the browser's
  \<^verbatim>\<open>encodeURIComponent\<close> and \<^verbatim>\<open>fetch\<close> (by URL), and \<^verbatim>\<open>Number\<close> on a
  string, an array or an object.
\<close>

record browser =
  apiUrl :: string
  encodeURIComponent :: "string \<Rightarrow> string"
  fetch :: "string \<Rightarrow> fetch_outcome"
  Number_of :: "json \<Rightarrow> js_number"

text \<open>The state the effect writes (\<^verbatim>\<open>useState\<close>).\<close>

record component_state =
  products :: jsval
  totalPages :: js_number
  status :: string
  error :: "string option"

definition initial_state :: component_state where
  "initial_state =
     \<lparr>products = Val (JArr []), totalPages = Exact 1, status = ''loading'', error = None\<rparr>"

text \<open>
  The URL \<^verbatim>\<open>fetchProducts\<close> requests, for a page number that is an integer. It is
  \<open>None\<close> when the page or \<^verbatim>\<open>skip\<close> leaves the integers a double holds exactly: what
  the code prints then depends on the rounding of doubles, which is not modelled.
  \<^verbatim>\<open>URLSearchParams.toString\<close> leaves digits and the minus sign as they are.
\<close>

definition request_url :: "browser \<Rightarrow> string \<Rightarrow> int \<Rightarrow> string option" where
  "request_url b debouncedSearch currentPage =
     (let skip = (currentPage - 1) * itemsPerPage;
          params = ''limit='' @ String_of_int itemsPerPage @ ''&skip='' @ String_of_int skip;
          baseUrl = (if debouncedSearch \<noteq> []
                     then apiUrl b @ ''/search?q='' @ encodeURIComponent b debouncedSearch
                     else apiUrl b)
      in if safe_integer currentPage \<and> safe_integer skip
         then Some (baseUrl @ ''?'' @ params)
         else None)"

text \<open>\<^verbatim>\<open>Number(data.total || 0)\<close>, given \<^verbatim>\<open>data.total\<close>.\<close>

fun total_of :: "(json \<Rightarrow> js_number) \<Rightarrow> jsval \<Rightarrow> js_number" where
  "total_of num (Val (JNum n)) = number n"
| "total_of num (Val (JBool t)) = Exact (if t then 1 else 0)"
| "total_of num (Val (JStr s)) = (if s = [] then Exact 0 else num (JStr s))"
| "total_of num (Val (JArr vs)) = num (JArr vs)"
| "total_of num (Val (JObj kvs)) = num (JObj kvs)"
| "total_of num (Val JNull) = Exact 0"
| "total_of num Undefined = Exact 0"

text \<open>
  \<^verbatim>\<open>Math.max(1, Math.ceil(total / itemsPerPage))\<close>. For an integer \<open>t\<close> in the exact
  range the quotient \<open>t / 12\<close> is below \<open>2^50\<close> in size, so the double nearest to it is
  less than \<open>1/16\<close> away, while \<open>t / 12\<close> is an integer or at least \<open>1/12\<close> away from
  one: \<^verbatim>\<open>Math.ceil\<close> gives the ceiling of the exact quotient, \<open>- ((- t) div 12)\<close>.
\<close>

fun page_count :: "js_number \<Rightarrow> js_number" where
  "page_count (Exact t) =
     (if safe_integer t then Exact (max 1 (- ((- t) div itemsPerPage))) else Inexact)"
| "page_count NaN = NaN"
| "page_count Inexact = Inexact"

definition fetch_catch :: "component_state \<Rightarrow> js_error \<Rightarrow> component_state" where
  "fetch_catch st err =
     (case err of
        AbortError m \<Rightarrow> st
      | _ \<Rightarrow>
          st\<lparr>status := ''error'',
             error := Some (if message err \<noteq> [] then message err
                            else ''Error al cargar los productos'')\<rparr>)"

text \<open>
  \<^verbatim>\<open>fetchProducts\<close>: the state it leaves, \<open>None\<close> when the URL is not modelled.
\<close>

definition fetchProducts ::
  "browser \<Rightarrow> string \<Rightarrow> int \<Rightarrow> component_state \<Rightarrow> component_state option" where
  "fetchProducts b debouncedSearch currentPage st0 =
     (let st = st0\<lparr>status := ''loading'', error := None\<rparr>
      in case request_url b debouncedSearch currentPage of
           None \<Rightarrow> None
         | Some url \<Rightarrow>
             Some
               (case fetch b url of
                  Rejected err \<Rightarrow> fetch_catch st err
                | Resolved ok_flag code statusText body \<Rightarrow>
                    if \<not> ok_flag
                    then fetch_catch st
                           (Error (''Error '' @ String_of_int (int code) @ '': '' @ statusText))
                    else
                      (case body of
                         Inl err \<Rightarrow> fetch_catch st err
                       | Inr response_data \<Rightarrow>
                           (case get_prop response_data ''products'' of
                              Inl err \<Rightarrow> fetch_catch st err
                            | Inr ps \<Rightarrow>
                                (case get_prop response_data ''total'' of
                                   Inl err \<Rightarrow> fetch_catch st err
                                 | Inr t \<Rightarrow>
                                     st\<lparr>products := (if truthy ps then ps else Val (JArr [])),
                                        totalPages := page_count (total_of (Number_of b) t),
                                        status := ''success''\<rparr>)))))"

section \<open>Concrete requests and environments\<close>

text \<open>
  The instances on which the theorems below are evaluated. \<open>example_hmac\<close> agrees with
  HMAC-SHA256 in Base64 under the key \<^verbatim>\<open>secret\<close> on the five bodies listed, and
  \<open>example_parse\<close> with \<^verbatim>\<open>JSON.parse\<close> on the same bodies. The queue of
  \<open>example_env up\<close> gives every job the id 7 when \<open>up\<close> holds and is unavailable
  otherwise.
\<close>

definition example_hmac :: "string \<Rightarrow> string \<Rightarrow> string" where
  "example_hmac key body =
     (if key \<noteq> ''secret'' then ''AAAAAAAAAAAAAAAAAAAAAAAAAAAAAAAAAAAAAAAAAAA=''
      else if body = ''{\"id\":42}'' then ''w3fWw6dA55NWBIw+JNxUQkeAS5TXRGeWVwn8mYm1P2c=''
      else if body = ''{\"id\":43}'' then ''v2F0K4z5M2jFRkZvF/6WqCqBJlLl0VTVy8Zpt4LOoBY=''
      else if body = ''{\"id\":42'' then ''V+mdX/YGh3sy95U7S+Hhgsl7fxWsl2rmyHCjtVUu0yw=''
      else if body = ''null'' then ''gPHZEpH4ztXGBEiwTbs7WIKLfMP99PlOVuRPYeF6vJk=''
      else if body = ''not json'' then ''GeRM799HluDcYW6UDknC7NP8R2ND5Ax8ldOaddwQ6Vg=''
      else ''AAAAAAAAAAAAAAAAAAAAAAAAAAAAAAAAAAAAAAAAAAA='')"

definition example_parse :: "string \<Rightarrow> json option" where
  "example_parse body =
     (if body = ''{\"id\":42}'' then Some (JObj [(''id'', JNum 42)])
      else if body = ''{\"id\":43}'' then Some (JObj [(''id'', JNum 43)])
      else if body = ''null'' then Some JNull
      else None)"

definition example_env :: "bool \<Rightarrow> env" where
  "example_env up =
     \<lparr>SHOPIFY_WEBHOOK_SECRET = Some ''secret'',
      hmac_sha256_base64 = example_hmac,
      JSON_parse = example_parse,
      queue_add = (\<lambda>d opts. if up then Inr 7 else Inl (Error ''queue unavailable''))\<rparr>"

definition signed_request :: "string \<Rightarrow> string \<Rightarrow> request" where
  "signed_request tp body =
     \<lparr>hmac_header = Some (example_hmac ''secret'' body), topic_header = Some tp,
      shop_header = Some ''demo.myshopify.com'', raw_body = body\<rparr>"


definition empty_order :: job_data where
  "empty_order =
     \<lparr>payload = JObj [(''id'', JNum 42), (''line_items'', JArr [])],
      topic = Some ''orders/create'', shopDomain = Some ''demo.myshopify.com''\<rparr>"

definition example_order_data :: order_data where
  "example_order_data =
     \<lparr>shopifyOrderId = Val (JNum 42), orderNumber = Undefined, customerEmail = Undefined,
      currency = Undefined, lineItems = [], shippingAddress = Undefined,
      billingAddress = Undefined, createdAt = Undefined\<rparr>"

text \<open>An internal system that is down: every call throws, the message numbered by the call.\<close>

definition always_down :: "nat \<Rightarrow> js_error option" where
  "always_down i = Some (Error (''HTTP 503 on call '' @ String_of_int (int i + 1)))"

text \<open>
  A browser in which every request is answered 200 with the given JSON, and
  \<^verbatim>\<open>encodeURIComponent\<close> meets only characters it leaves as they are.
\<close>

definition example_browser :: "json \<Rightarrow> browser" where
  "example_browser response_data =
     \<lparr>apiUrl = ''https://dummyjson.com/products'',
      encodeURIComponent = (\<lambda>s. s),
      fetch = (\<lambda>url. Resolved True 200 ''OK'' (Inr response_data)),
      Number_of = (\<lambda>v. NaN)\<rparr>"

section \<open>The signature check\<close>

lemmas example_defs = example_env_def signed_request_def example_hmac_def example_parse_def

lemmas endpoint_defs = post_webhooks_shopify_orders_def verifyShopifyWebhook_def verify_try_def
  missing_hmac_def invalid_hmac_def timingSafeEqual_def Buffer_from_def orders_route_def
  processWebhookAsync_def route_catch_def job_opts_def

lemma of_char_nat_inj: "(of_char c :: nat) = of_char d \<Longrightarrow> c = d"
  by (metis char_of_char)

lemma utf8_not_Nil: "utf8 c \<noteq> []"
  by (simp add: Let_def)

lemma utf8_prefix_inj:
  assumes "utf8 c @ xs = utf8 d @ ys"
  shows "c = d \<and> xs = ys"
proof -
  let ?m = "of_char c :: nat" and ?n = "of_char d :: nat"
  have b: "?m < 256" "?n < 256" by simp_all
  consider (ss) "?m < 128" "?n < 128" | (sl) "?m < 128" "128 \<le> ?n"
    | (ls) "128 \<le> ?m" "?n < 128" | (ll) "128 \<le> ?m" "128 \<le> ?n"
    by linarith
  then show ?thesis
  proof cases
    case ss
    with assms show ?thesis by (auto simp: Let_def dest: of_char_nat_inj)
  next
    case sl
    with assms show ?thesis by (auto simp: Let_def)
  next
    case ls
    with assms show ?thesis by (auto simp: Let_def)
  next
    case ll
    with assms have "?m div 64 = ?n div 64" "?m mod 64 = ?n mod 64" "xs = ys"
      by (auto simp: Let_def)
    then have "?m = ?n" by (metis div_mult_mod_eq)
    with \<open>xs = ys\<close> show ?thesis by (auto dest: of_char_nat_inj)
  qed
qed

lemma Buffer_from_inj: "Buffer_from s = Buffer_from t \<Longrightarrow> s = t"
proof (induction s arbitrary: t)
  case Nil
  then show ?case using utf8_not_Nil
    by (cases t) (auto simp: Buffer_from_def simp del: utf8.simps)
next
  case (Cons c s)
  show ?case
  proof (cases t)
    case Nil
    with Cons.prems show ?thesis using utf8_not_Nil
      by (auto simp: Buffer_from_def simp del: utf8.simps)
  next
    case (Cons d t')
    with Cons.prems have "utf8 c @ Buffer_from s = utf8 d @ Buffer_from t'"
      by (simp add: Buffer_from_def del: utf8.simps)
    then have "c = d" "Buffer_from s = Buffer_from t'"
      using utf8_prefix_inj by blast+
    with Cons.IH Cons show ?thesis by simp
  qed
qed

lemma timingSafeEqual_same: "timingSafeEqual (Buffer_from s) (Buffer_from s) = Inr True"
  by (simp add: timingSafeEqual_def)

lemma timingSafeEqual_differ:
  "s \<noteq> t \<Longrightarrow> length (Buffer_from s) = length (Buffer_from t) \<Longrightarrow>
   timingSafeEqual (Buffer_from s) (Buffer_from t) = Inr False"
  by (auto simp: timingSafeEqual_def dest: Buffer_from_inj)

lemma verify_missing:
  "hmac_header req = None \<or> hmac_header req = Some [] \<Longrightarrow>
   verifyShopifyWebhook env req = missing_hmac"
  by (auto simp: verifyShopifyWebhook_def verify_try_def)

text \<open>
  A header whose byte length differs from the digest's is answered 500.
\<close>

lemma verify_length_mismatch:
  assumes "hmac_header req = Some h" "h \<noteq> []" "SHOPIFY_WEBHOOK_SECRET env = Some k"
    and "length (Buffer_from (hmac_sha256_base64 env k (raw_body req))) \<noteq> length (Buffer_from h)"
  shows "verifyShopifyWebhook env req =
           ([Log Err ''Error verifying webhook''
               [(''error'', Val (JStr ''Input buffers must have the same byte length''))],
             Respond 500 (JObj [(''error'', JStr ''Internal server error'')])], None)"
  using assms by (simp add: verifyShopifyWebhook_def verify_try_def timingSafeEqual_def)

lemma verify_mismatch:
  assumes "hmac_header req = Some h" "h \<noteq> []" "SHOPIFY_WEBHOOK_SECRET env = Some k"
    and "length (Buffer_from (hmac_sha256_base64 env k (raw_body req))) = length (Buffer_from h)"
    and "h \<noteq> hmac_sha256_base64 env k (raw_body req)"
  shows "verifyShopifyWebhook env req = invalid_hmac h"
  using assms timingSafeEqual_differ[of "hmac_sha256_base64 env k (raw_body req)" h]
  by (simp add: verifyShopifyWebhook_def verify_try_def)

lemma verify_unparsable:
  assumes "hmac_header req = Some h" "h \<noteq> []" "SHOPIFY_WEBHOOK_SECRET env = Some k"
    and "h = hmac_sha256_base64 env k (raw_body req)"
    and "JSON_parse env (raw_body req) = None"
  shows "verifyShopifyWebhook env req =
           ([Log Err ''Error verifying webhook'' [(''error'', Val (JStr ''Unexpected token in JSON''))],
             Respond 500 (JObj [(''error'', JStr ''Internal server error'')])], None)"
  using assms by (simp add: verifyShopifyWebhook_def verify_try_def timingSafeEqual_same)

lemma verify_next:
  assumes "hmac_header req = Some h" "h \<noteq> []" "SHOPIFY_WEBHOOK_SECRET env = Some k"
    and "h = hmac_sha256_base64 env k (raw_body req)"
    and "JSON_parse env (raw_body req) = Some pl"
  shows "verifyShopifyWebhook env req =
           ([Log Info ''HMAC signature verified successfully''
               [(''topic'', opt_str (topic_header req)), (''shop'', opt_str (shop_header req))]],
            Some pl)"
  using assms by (simp add: verifyShopifyWebhook_def verify_try_def timingSafeEqual_same)

lemma verify_next_iff:
  "snd (verifyShopifyWebhook env req) = Some pl \<longleftrightarrow>
     (\<exists>k h. SHOPIFY_WEBHOOK_SECRET env = Some k \<and> hmac_header req = Some h \<and> h \<noteq> [] \<and>
        h = hmac_sha256_base64 env k (raw_body req) \<and> JSON_parse env (raw_body req) = Some pl)"
  by (auto simp: verifyShopifyWebhook_def verify_try_def missing_hmac_def invalid_hmac_def Let_def
       timingSafeEqual_def dest: Buffer_from_inj split: option.splits sum.splits if_splits)

text \<open>
  Claim C1, as amended. With the secret configured, the middleware calls \<^verbatim>\<open>next()\<close>
  exactly when the signature header is present, is not empty, equals the Base64
  HMAC-SHA256 digest of the raw body, and the raw body parses as JSON. A request that
  proceeds no longer does once one character of its header is changed, and no longer does
  once one byte of its body is changed, provided the digest of the changed body differs
  from the digest of the original (that it always differs is a property of HMAC-SHA256,
  which is a parameter here).
\<close>

theorem verify_proceeds_iff:
  assumes "SHOPIFY_WEBHOOK_SECRET env = Some secret"
  shows "(snd (verifyShopifyWebhook env req) \<noteq> None \<longleftrightarrow>
            hmac_header req = Some (hmac_sha256_base64 env secret (raw_body req)) \<and>
            hmac_sha256_base64 env secret (raw_body req) \<noteq> [] \<and>
            JSON_parse env (raw_body req) \<noteq> None)
       \<and> (\<forall>h i c. snd (verifyShopifyWebhook env req) \<noteq> None \<and> hmac_header req = Some h \<and>
              i < length h \<and> c \<noteq> h ! i \<longrightarrow>
              snd (verifyShopifyWebhook env (req\<lparr>hmac_header := Some (h[i := c])\<rparr>)) = None)
       \<and> (\<forall>i c. snd (verifyShopifyWebhook env req) \<noteq> None \<and>
              hmac_sha256_base64 env secret ((raw_body req)[i := c])
                \<noteq> hmac_sha256_base64 env secret (raw_body req) \<longrightarrow>
              snd (verifyShopifyWebhook env (req\<lparr>raw_body := (raw_body req)[i := c]\<rparr>)) = None)"
proof -
  have iff: "snd (verifyShopifyWebhook env r) \<noteq> None \<longleftrightarrow>
            hmac_header r = Some (hmac_sha256_base64 env secret (raw_body r)) \<and>
            hmac_sha256_base64 env secret (raw_body r) \<noteq> [] \<and>
            JSON_parse env (raw_body r) \<noteq> None" for r
    using assms verify_next_iff[of env r] by (cases "snd (verifyShopifyWebhook env r)") auto
  have mut: "h[i := c] \<noteq> h" if "i < length h" "c \<noteq> h ! i" for h :: string and i c
    using that by (metis nth_list_update_eq)
  show ?thesis
  proof (intro conjI allI impI)
    show "snd (verifyShopifyWebhook env req) \<noteq> None \<longleftrightarrow>
            hmac_header req = Some (hmac_sha256_base64 env secret (raw_body req)) \<and>
            hmac_sha256_base64 env secret (raw_body req) \<noteq> [] \<and>
            JSON_parse env (raw_body req) \<noteq> None"
      by (rule iff)
  next
    fix h i c
    assume a: "snd (verifyShopifyWebhook env req) \<noteq> None \<and> hmac_header req = Some h \<and>
              i < length h \<and> c \<noteq> h ! i"
    then have "h = hmac_sha256_base64 env secret (raw_body req)" using iff[of req] by simp
    moreover have "h[i := c] \<noteq> h" using a mut by blast
    ultimately show "snd (verifyShopifyWebhook env (req\<lparr>hmac_header := Some (h[i := c])\<rparr>)) = None"
      using iff[of "req\<lparr>hmac_header := Some (h[i := c])\<rparr>"] by auto
  next
    fix i c
    assume a: "snd (verifyShopifyWebhook env req) \<noteq> None \<and>
              hmac_sha256_base64 env secret ((raw_body req)[i := c])
                \<noteq> hmac_sha256_base64 env secret (raw_body req)"
    then have "hmac_header req = Some (hmac_sha256_base64 env secret (raw_body req))"
      using iff[of req] by simp
    with a show "snd (verifyShopifyWebhook env (req\<lparr>raw_body := (raw_body req)[i := c]\<rparr>)) = None"
      using iff[of "req\<lparr>raw_body := (raw_body req)[i := c]\<rparr>"] by auto
  qed
qed

text \<open>
  Claim C1, the amended statement at a request that proceeds: the body
  \<^verbatim>\<open>{"id":42}\<close> signed under the key \<^verbatim>\<open>secret\<close>, then with the fourth character
  of its header replaced by \<^verbatim>\<open>X\<close>, then with its body changed to \<^verbatim>\<open>{"id":43}\<close>.
\<close>

theorem verify_proceeds_iff_witness:
  "SHOPIFY_WEBHOOK_SECRET (example_env True) = Some ''secret''
   \<and> snd (verifyShopifyWebhook (example_env True) (signed_request ''orders/create'' ''{\"id\":42}'')) \<noteq> None
   \<and> snd (verifyShopifyWebhook (example_env True)
        ((signed_request ''orders/create'' ''{\"id\":42}'')
           \<lparr>hmac_header := Some (''w3fWw6dA55NWBIw+JNxUQkeAS5TXRGeWVwn8mYm1P2c=''[3 := CHR ''X''])\<rparr>)) = None
   \<and> snd (verifyShopifyWebhook (example_env True)
        ((signed_request ''orders/create'' ''{\"id\":42}'')\<lparr>raw_body := ''{\"id\":42}''[7 := CHR ''3'']\<rparr>)) = None"
proof -
  let ?env = "example_env True" and ?req = "signed_request ''orders/create'' ''{\"id\":42}''"
  have s: "SHOPIFY_WEBHOOK_SECRET ?env = Some ''secret''"
    by (simp add: example_env_def)
  note t = verify_proceeds_iff[OF s, of ?req]
  have p: "snd (verifyShopifyWebhook ?env ?req) \<noteq> None"
    using t by (simp add: example_defs)
  have h: "hmac_header ?req = Some ''w3fWw6dA55NWBIw+JNxUQkeAS5TXRGeWVwn8mYm1P2c=''"
    by (simp add: example_defs)
  have "\<forall>h i c. snd (verifyShopifyWebhook ?env ?req) \<noteq> None \<and> hmac_header ?req = Some h \<and>
              i < length h \<and> c \<noteq> h ! i \<longrightarrow>
              snd (verifyShopifyWebhook ?env (?req\<lparr>hmac_header := Some (h[i := c])\<rparr>)) = None"
    using t by blast
  from this[rule_format, of "''w3fWw6dA55NWBIw+JNxUQkeAS5TXRGeWVwn8mYm1P2c=''" 3 "CHR ''X''"] p h
  have m1: "snd (verifyShopifyWebhook ?env
        (?req\<lparr>hmac_header := Some (''w3fWw6dA55NWBIw+JNxUQkeAS5TXRGeWVwn8mYm1P2c=''[3 := CHR ''X''])\<rparr>)) = None"
    by simp
  have "\<forall>i c. snd (verifyShopifyWebhook ?env ?req) \<noteq> None \<and>
              hmac_sha256_base64 ?env ''secret'' ((raw_body ?req)[i := c])
                \<noteq> hmac_sha256_base64 ?env ''secret'' (raw_body ?req) \<longrightarrow>
              snd (verifyShopifyWebhook ?env (?req\<lparr>raw_body := (raw_body ?req)[i := c]\<rparr>)) = None"
    using t by blast
  from this[rule_format, of 7 "CHR ''3''"] p
  have m2: "snd (verifyShopifyWebhook ?env (?req\<lparr>raw_body := ''{\"id\":42}''[7 := CHR ''3'']\<rparr>)) = None"
    by (simp add: example_defs)
  from s p m1 m2 show ?thesis by blast
qed

text \<open>
  Claim C1 as stated fails: the body \<^verbatim>\<open>not json\<close> carries a header equal to its
  digest, yet \<^verbatim>\<open>JSON.parse\<close> throws inside the middleware, which answers 500 and does
  not call \<^verbatim>\<open>next()\<close>.
\<close>

theorem signed_non_json_body_does_not_proceed:
  "hmac_header (signed_request ''orders/create'' ''not json'')
     = Some (hmac_sha256_base64 (example_env True) ''secret'' ''not json'')
   \<and> verifyShopifyWebhook (example_env True) (signed_request ''orders/create'' ''not json'')
     = ([Log Err ''Error verifying webhook'' [(''error'', Val (JStr ''Unexpected token in JSON''))],
         Respond 500 (JObj [(''error'', JStr ''Internal server error'')])], None)"
  by (simp add: example_defs endpoint_defs)

text \<open>
  Claim C3 against the code: a missing header and a header of the digest's length that
  differs from it are answered 401, but a header of another length (\<^verbatim>\<open>abc\<close>) makes
  \<^verbatim>\<open>crypto.timingSafeEqual\<close> throw, and the \<^verbatim>\<open>catch\<close> answers 500.
\<close>

theorem malformed_header_answered_500:
  "responses (fst (verifyShopifyWebhook (example_env True)
      ((signed_request ''orders/create'' ''{\"id\":42}'')\<lparr>hmac_header := None\<rparr>)))
     = [(401, JObj [(''error'', JStr ''Missing HMAC signature'')])]
   \<and> responses (fst (verifyShopifyWebhook (example_env True)
      ((signed_request ''orders/create'' ''{\"id\":42}'')
         \<lparr>hmac_header := Some ''w3fXw6dA55NWBIw+JNxUQkeAS5TXRGeWVwn8mYm1P2c=''\<rparr>)))
     = [(401, JObj [(''error'', JStr ''Invalid HMAC signature'')])]
   \<and> responses (fst (verifyShopifyWebhook (example_env True)
      ((signed_request ''orders/create'' ''{\"id\":42}'')\<lparr>hmac_header := Some ''abc''\<rparr>)))
     = [(500, JObj [(''error'', JStr ''Internal server error'')])]"
  by (simp add: example_defs endpoint_defs)

section \<open>The endpoint\<close>

lemma get_prop_same: "get_prop pl k = Inr v \<Longrightarrow> \<exists>w. get_prop pl k' = Inr w"
  by (cases pl) auto

lemma responses_append: "responses (xs @ ys) = responses xs @ responses ys"
  by (induction xs rule: responses.induct) auto

lemma enqueued_append: "enqueued (xs @ ys) = enqueued xs @ enqueued ys"
  by (induction xs rule: enqueued.induct) auto

lemma processWebhookAsync_responses: "responses (fst (processWebhookAsync env pl tp shop)) = []"
  by (auto simp: processWebhookAsync_def Let_def split: sum.splits)

lemma orders_route_responses:
  assumes "get_prop pl ''id'' = Inr oid"
  shows "responses (orders_route env req pl) =
           [(200, JObj (object_literal [(''received'', Val (JBool True)), (''orderId'', oid)]))]"
proof -
  obtain num where n: "get_prop pl ''order_number'' = Inr num"
    using assms get_prop_same by blast
  obtain evs r where p: "processWebhookAsync env pl (topic_header req) (shop_header req) = (evs, r)"
    by (cases "processWebhookAsync env pl (topic_header req) (shop_header req)")
  then have "responses evs = []"
    using processWebhookAsync_responses[of env pl "topic_header req" "shop_header req"] by simp
  with assms n p show ?thesis
    by (cases r) (simp_all add: orders_route_def route_catch_def responses_append)
qed

lemma orders_route_queue_down:
  assumes "get_prop pl ''id'' = Inr oid" "get_prop pl ''order_number'' = Inr num"
    and "queue_add env \<lparr>payload = pl, topic = topic_header req, shopDomain = shop_header req\<rparr> job_opts = Inl e"
  shows "orders_route env req pl =
     [Log Info ''Webhook received''
        [(''topic'', opt_str (topic_header req)), (''shopDomain'', opt_str (shop_header req)),
         (''orderId'', oid), (''orderNumber'', num)],
      Respond 200 (JObj (object_literal [(''received'', Val (JBool True)), (''orderId'', oid)])),
      Log Err ''Error adding job to queue'' [(''error'', Val (JStr (message e))), (''orderId'', oid)],
      Log Err ''Error processing webhook'' [(''error'', Val (JStr (message e)))]]"
  using assms by (simp add: orders_route_def processWebhookAsync_def route_catch_def)

lemma orders_route_queue_up:
  assumes "get_prop pl ''id'' = Inr oid" "get_prop pl ''order_number'' = Inr num"
    and "queue_add env \<lparr>payload = pl, topic = topic_header req, shopDomain = shop_header req\<rparr> job_opts = Inr jid"
  shows "orders_route env req pl =
     [Log Info ''Webhook received''
        [(''topic'', opt_str (topic_header req)), (''shopDomain'', opt_str (shop_header req)),
         (''orderId'', oid), (''orderNumber'', num)],
      Respond 200 (JObj (object_literal [(''received'', Val (JBool True)), (''orderId'', oid)])),
      Enqueued jid \<lparr>payload = pl, topic = topic_header req, shopDomain = shop_header req\<rparr> job_opts,
      Log Info ''Job added to queue'' [(''jobId'', Val (JNum (int jid))), (''orderId'', oid)]]"
  using assms by (simp add: orders_route_def processWebhookAsync_def route_catch_def)

lemma post_next:
  "snd (verifyShopifyWebhook env req) = Some pl \<Longrightarrow>
   post_webhooks_shopify_orders env req =
     [Log Info ''HMAC signature verified successfully''
        [(''topic'', opt_str (topic_header req)), (''shop'', opt_str (shop_header req))]]
     @ orders_route env req pl"
  unfolding verify_next_iff
  by (auto simp: post_webhooks_shopify_orders_def dest!: verify_next)

lemma post_reply:
  "snd (verifyShopifyWebhook env req) = None \<Longrightarrow>
   post_webhooks_shopify_orders env req = fst (verifyShopifyWebhook env req)"
  by (cases "verifyShopifyWebhook env req") (simp add: post_webhooks_shopify_orders_def)

text \<open>
  For a verified payload on which \<^verbatim>\<open>payload.id\<close> can be read, the acknowledgment is
  the only response, and it is sent before anything is added to the queue.
\<close>

lemma acknowledgment_precedes_enqueue:
  assumes "snd (verifyShopifyWebhook env req) = Some pl" and "get_prop pl ''id'' = Inr oid"
  shows "\<exists>before after. post_webhooks_shopify_orders env req =
            before
            @ Respond 200
                (JObj (object_literal [(''received'', Val (JBool True)), (''orderId'', oid)]))
            # after
          \<and> responses before = [] \<and> enqueued before = [] \<and> responses after = []"
proof -
  obtain num where n: "get_prop pl ''order_number'' = Inr num"
    using assms(2) get_prop_same by blast
  let ?before = "[Log Info ''HMAC signature verified successfully''
              [(''topic'', opt_str (topic_header req)), (''shop'', opt_str (shop_header req))],
            Log Info ''Webhook received''
              [(''topic'', opt_str (topic_header req)), (''shopDomain'', opt_str (shop_header req)),
               (''orderId'', oid), (''orderNumber'', num)]]"
  let ?ack = "Respond 200
                (JObj (object_literal [(''received'', Val (JBool True)), (''orderId'', oid)]))"
  show ?thesis
  proof (cases "queue_add env \<lparr>payload = pl, topic = topic_header req, shopDomain = shop_header req\<rparr> job_opts")
    case (Inl e)
    with assms n have "post_webhooks_shopify_orders env req =
        ?before @ ?ack # [Log Err ''Error adding job to queue''
                  [(''error'', Val (JStr (message e))), (''orderId'', oid)],
                Log Err ''Error processing webhook'' [(''error'', Val (JStr (message e)))]]"
      by (simp add: post_next orders_route_queue_down)
    then show ?thesis
      by (intro exI[of _ ?before] exI[of _ "[Log Err ''Error adding job to queue''
                  [(''error'', Val (JStr (message e))), (''orderId'', oid)],
                Log Err ''Error processing webhook'' [(''error'', Val (JStr (message e)))]]"]) simp
  next
    case (Inr jid)
    with assms n have "post_webhooks_shopify_orders env req =
        ?before @ ?ack # [Enqueued jid \<lparr>payload = pl, topic = topic_header req, shopDomain = shop_header req\<rparr> job_opts,
      Log Info ''Job added to queue'' [(''jobId'', Val (JNum (int jid))), (''orderId'', oid)]]"
      by (simp add: post_next orders_route_queue_up)
    then show ?thesis
      by (intro exI[of _ ?before] exI[of _ "[Enqueued jid \<lparr>payload = pl, topic = topic_header req, shopDomain = shop_header req\<rparr> job_opts,
      Log Info ''Job added to queue'' [(''jobId'', Val (JNum (int jid))), (''orderId'', oid)]]"]) simp
  qed
qed

text \<open>
  A verified payload that is \<^verbatim>\<open>null\<close> gets no response, and no job.
\<close>

lemma null_payload_unanswered:
  assumes "snd (verifyShopifyWebhook env req) = Some JNull"
  shows "responses (post_webhooks_shopify_orders env req) = []"
    and "enqueued (post_webhooks_shopify_orders env req) = []"
  using assms by (simp_all add: post_next orders_route_def route_catch_def)

text \<open>
  Claim C6 against the code: the body \<^verbatim>\<open>null\<close>, correctly signed, passes the
  verification; the callback then throws on \<^verbatim>\<open>payload.id\<close> before
  \<^verbatim>\<open>res.status(200)\<close>, its \<^verbatim>\<open>catch\<close> only logs, and no response is sent.
\<close>

theorem signed_null_body_unanswered:
  "snd (verifyShopifyWebhook (example_env True) (signed_request ''orders/create'' ''null'')) = Some JNull
   \<and> post_webhooks_shopify_orders (example_env True) (signed_request ''orders/create'' ''null'')
     = [Log Info ''HMAC signature verified successfully''
          [(''topic'', Val (JStr ''orders/create'')), (''shop'', Val (JStr ''demo.myshopify.com''))],
        Log Err ''Error processing webhook'' [(''error'', Val (JStr ''Cannot read properties of null''))]]
   \<and> responses (post_webhooks_shopify_orders (example_env True)
        (signed_request ''orders/create'' ''null'')) = []"
  by (simp add: example_defs endpoint_defs)

text \<open>
  Claim C2, as amended. For every request that passes the verification with a payload
  on which \<^verbatim>\<open>payload.id\<close> can be read, if adding the job to the queue fails then the
  endpoint has already sent the acknowledgment: the producer receives 200, no job is
  queued, and the failure is only logged, after the response.
\<close>

theorem enqueue_failure_after_acknowledgment:
  assumes "snd (verifyShopifyWebhook env req) = Some pl"
    and "get_prop pl ''id'' = Inr oid"
    and "queue_add env \<lparr>payload = pl, topic = topic_header req, shopDomain = shop_header req\<rparr>
           job_opts = Inl e"
  shows "responses (post_webhooks_shopify_orders env req) =
           [(200, JObj (object_literal [(''received'', Val (JBool True)), (''orderId'', oid)]))]
       \<and> enqueued (post_webhooks_shopify_orders env req) = []
       \<and> (\<exists>before. post_webhooks_shopify_orders env req =
             before
             @ [Respond 200
                  (JObj (object_literal [(''received'', Val (JBool True)), (''orderId'', oid)])),
                Log Err ''Error adding job to queue''
                  [(''error'', Val (JStr (message e))), (''orderId'', oid)],
                Log Err ''Error processing webhook'' [(''error'', Val (JStr (message e)))]])"
proof -
  obtain num where n: "get_prop pl ''order_number'' = Inr num"
    using assms(2) get_prop_same by blast
  let ?before = "[Log Info ''HMAC signature verified successfully''
              [(''topic'', opt_str (topic_header req)), (''shop'', opt_str (shop_header req))],
            Log Info ''Webhook received''
              [(''topic'', opt_str (topic_header req)), (''shopDomain'', opt_str (shop_header req)),
               (''orderId'', oid), (''orderNumber'', num)]]"
  have p: "post_webhooks_shopify_orders env req =
             ?before
             @ [Respond 200
                  (JObj (object_literal [(''received'', Val (JBool True)), (''orderId'', oid)])),
                Log Err ''Error adding job to queue''
                  [(''error'', Val (JStr (message e))), (''orderId'', oid)],
                Log Err ''Error processing webhook'' [(''error'', Val (JStr (message e)))]]"
    using assms n by (simp add: post_next orders_route_queue_down)
  then have "responses (post_webhooks_shopify_orders env req) =
           [(200, JObj (object_literal [(''received'', Val (JBool True)), (''orderId'', oid)]))]"
    and "enqueued (post_webhooks_shopify_orders env req) = []"
    by simp_all
  with p show ?thesis by blast
qed

text \<open>
  Claim C2, the amended statement at the body \<^verbatim>\<open>{"id":43}\<close> with the queue unavailable.
\<close>

theorem enqueue_failure_after_acknowledgment_witness:
  "snd (verifyShopifyWebhook (example_env False) (signed_request ''orders/paid'' ''{\"id\":43}''))
     = Some (JObj [(''id'', JNum 43)])
   \<and> get_prop (JObj [(''id'', JNum 43)]) ''id'' = Inr (Val (JNum 43))
   \<and> queue_add (example_env False)
        \<lparr>payload = JObj [(''id'', JNum 43)], topic = Some ''orders/paid'',
         shopDomain = Some ''demo.myshopify.com''\<rparr> job_opts = Inl (Error ''queue unavailable'')
   \<and> responses (post_webhooks_shopify_orders (example_env False)
        (signed_request ''orders/paid'' ''{\"id\":43}''))
       = [(200, JObj [(''received'', JBool True), (''orderId'', JNum 43)])]
   \<and> enqueued (post_webhooks_shopify_orders (example_env False)
        (signed_request ''orders/paid'' ''{\"id\":43}'')) = []"
proof -
  let ?env = "example_env False" and ?req = "signed_request ''orders/paid'' ''{\"id\":43}''"
  let ?pl = "JObj [(''id'', JNum 43)]"
  have v: "snd (verifyShopifyWebhook ?env ?req) = Some ?pl"
    by (simp add: example_defs endpoint_defs)
  have i: "get_prop ?pl ''id'' = Inr (Val (JNum 43))" by simp
  have q: "queue_add ?env \<lparr>payload = ?pl, topic = topic_header ?req, shopDomain = shop_header ?req\<rparr>
             job_opts = Inl (Error ''queue unavailable'')"
    by (simp add: example_defs)
  from enqueue_failure_after_acknowledgment[OF v i q] v i q show ?thesis
    by (simp add: example_defs)
qed

text \<open>
  Claim C2 as stated fails: with the queue unavailable, a verified request is answered 200
  although no job is queued.
\<close>

theorem queue_unavailable_acknowledged:
  "queue_add (example_env False)
     \<lparr>payload = JObj [(''id'', JNum 42)], topic = Some ''orders/create'',
      shopDomain = Some ''demo.myshopify.com''\<rparr> job_opts = Inl (Error ''queue unavailable'')
   \<and> responses (post_webhooks_shopify_orders (example_env False)
        (signed_request ''orders/create'' ''{\"id\":42}''))
     = [(200, JObj [(''received'', JBool True), (''orderId'', JNum 42)])]
   \<and> enqueued (post_webhooks_shopify_orders (example_env False)
        (signed_request ''orders/create'' ''{\"id\":42}'')) = []"
  by (simp add: example_defs endpoint_defs)

text \<open>
  Claim C8, as amended. With the secret configured, the endpoint answers 401 when the
  signature header is missing or empty, 401 when it differs from the digest and has the
  digest's byte length, 500 when a correctly signed body is not valid JSON, and 200 when a
  correctly signed body parses to a payload on which \<^verbatim>\<open>payload.id\<close> can be read,
  whatever the queue does then: a malformed payload is surfaced to the producer as an error
  status, and the unavailability of the queue is not.
\<close>

theorem statuses_surfaced:
  assumes "SHOPIFY_WEBHOOK_SECRET env = Some secret"
    and "digest = hmac_sha256_base64 env secret (raw_body req)"
  shows "(hmac_header req = None \<or> hmac_header req = Some [] \<longrightarrow>
            responses (post_webhooks_shopify_orders env req)
              = [(401, JObj [(''error'', JStr ''Missing HMAC signature'')])])
       \<and> (\<forall>h. hmac_header req = Some h \<and> h \<noteq> [] \<and> h \<noteq> digest \<and>
              length (Buffer_from h) = length (Buffer_from digest) \<longrightarrow>
            responses (post_webhooks_shopify_orders env req)
              = [(401, JObj [(''error'', JStr ''Invalid HMAC signature'')])])
       \<and> (hmac_header req = Some digest \<and> digest \<noteq> [] \<and> JSON_parse env (raw_body req) = None \<longrightarrow>
            responses (post_webhooks_shopify_orders env req)
              = [(500, JObj [(''error'', JStr ''Internal server error'')])])
       \<and> (\<forall>pl oid. hmac_header req = Some digest \<and> digest \<noteq> [] \<and>
              JSON_parse env (raw_body req) = Some pl \<and> get_prop pl ''id'' = Inr oid \<longrightarrow>
            responses (post_webhooks_shopify_orders env req)
              = [(200, JObj (object_literal [(''received'', Val (JBool True)), (''orderId'', oid)]))])"
proof (intro conjI allI impI)
  assume "hmac_header req = None \<or> hmac_header req = Some []"
  then have "verifyShopifyWebhook env req = missing_hmac" by (rule verify_missing)
  then show "responses (post_webhooks_shopify_orders env req)
              = [(401, JObj [(''error'', JStr ''Missing HMAC signature'')])]"
    by (simp add: post_reply missing_hmac_def)
next
  fix h
  assume "hmac_header req = Some h \<and> h \<noteq> [] \<and> h \<noteq> digest \<and>
              length (Buffer_from h) = length (Buffer_from digest)"
  with assms have "verifyShopifyWebhook env req = invalid_hmac h"
    by (simp add: verify_mismatch)
  then show "responses (post_webhooks_shopify_orders env req)
              = [(401, JObj [(''error'', JStr ''Invalid HMAC signature'')])]"
    by (simp add: post_reply invalid_hmac_def)
next
  assume "hmac_header req = Some digest \<and> digest \<noteq> [] \<and> JSON_parse env (raw_body req) = None"
  with assms have "verifyShopifyWebhook env req =
           ([Log Err ''Error verifying webhook'' [(''error'', Val (JStr ''Unexpected token in JSON''))],
             Respond 500 (JObj [(''error'', JStr ''Internal server error'')])], None)"
    by (simp add: verify_unparsable)
  then show "responses (post_webhooks_shopify_orders env req)
              = [(500, JObj [(''error'', JStr ''Internal server error'')])]"
    by (simp add: post_reply)
next
  fix pl oid
  assume a: "hmac_header req = Some digest \<and> digest \<noteq> [] \<and>
              JSON_parse env (raw_body req) = Some pl \<and> get_prop pl ''id'' = Inr oid"
  with assms have "snd (verifyShopifyWebhook env req) = Some pl"
    by (simp add: verify_next)
  with a show "responses (post_webhooks_shopify_orders env req)
              = [(200, JObj (object_literal [(''received'', Val (JBool True)), (''orderId'', oid)]))]"
    by (simp add: post_next orders_route_responses)
qed

text \<open>
  Claim C8, the amended statement at four requests, with the queue unavailable: no header,
  the digest of another body as header, a signed body that is not JSON, and a signed
  \<^verbatim>\<open>{"id":42}\<close>.
\<close>

theorem statuses_surfaced_witness:
  "SHOPIFY_WEBHOOK_SECRET (example_env False) = Some ''secret''
   \<and> responses (post_webhooks_shopify_orders (example_env False)
        ((signed_request ''orders/create'' ''{\"id\":42}'')\<lparr>hmac_header := None\<rparr>))
       = [(401, JObj [(''error'', JStr ''Missing HMAC signature'')])]
   \<and> responses (post_webhooks_shopify_orders (example_env False)
        ((signed_request ''orders/create'' ''{\"id\":42}'')
           \<lparr>hmac_header := Some ''v2F0K4z5M2jFRkZvF/6WqCqBJlLl0VTVy8Zpt4LOoBY=''\<rparr>))
       = [(401, JObj [(''error'', JStr ''Invalid HMAC signature'')])]
   \<and> responses (post_webhooks_shopify_orders (example_env False)
        (signed_request ''orders/create'' ''not json''))
       = [(500, JObj [(''error'', JStr ''Internal server error'')])]
   \<and> responses (post_webhooks_shopify_orders (example_env False)
        (signed_request ''orders/create'' ''{\"id\":42}''))
       = [(200, JObj [(''received'', JBool True), (''orderId'', JNum 42)])]"
proof -
  let ?env = "example_env False"
  let ?ok = "signed_request ''orders/create'' ''{\"id\":42}''"
  let ?d = "''w3fWw6dA55NWBIw+JNxUQkeAS5TXRGeWVwn8mYm1P2c=''"
  have s: "SHOPIFY_WEBHOOK_SECRET ?env = Some ''secret''"
    by (simp add: example_env_def)
  have d: "?d = hmac_sha256_base64 ?env ''secret'' (raw_body r)"
    if "raw_body r = ''{\"id\":42}''" for r :: request
    using that by (simp add: example_defs)
  have "responses (post_webhooks_shopify_orders ?env (?ok\<lparr>hmac_header := None\<rparr>))
       = [(401, JObj [(''error'', JStr ''Missing HMAC signature'')])]"
    using statuses_surfaced[OF s d, of "?ok\<lparr>hmac_header := None\<rparr>"]
    by (simp add: example_defs)
  moreover have "responses (post_webhooks_shopify_orders ?env
        (?ok\<lparr>hmac_header := Some ''v2F0K4z5M2jFRkZvF/6WqCqBJlLl0VTVy8Zpt4LOoBY=''\<rparr>))
       = [(401, JObj [(''error'', JStr ''Invalid HMAC signature'')])]"
    using statuses_surfaced[OF s d,
        of "?ok\<lparr>hmac_header := Some ''v2F0K4z5M2jFRkZvF/6WqCqBJlLl0VTVy8Zpt4LOoBY=''\<rparr>"]
    by (simp add: example_defs Buffer_from_def)
  moreover have "responses (post_webhooks_shopify_orders ?env (signed_request ''orders/create'' ''not json''))
       = [(500, JObj [(''error'', JStr ''Internal server error'')])]"
    using statuses_surfaced[OF s refl, of "signed_request ''orders/create'' ''not json''"]
    by (simp add: example_defs)
  moreover have "responses (post_webhooks_shopify_orders ?env ?ok)
       = [(200, JObj [(''received'', JBool True), (''orderId'', JNum 42)])]"
    using statuses_surfaced[OF s d, of ?ok]
    by (simp add: example_defs)
  ultimately show ?thesis using s by blast
qed

text \<open>
  Claim C8 as stated fails: a correctly signed body that is not valid JSON (\<^verbatim>\<open>{"id":42\<close>,
  the closing brace missing) is answered 500.
\<close>

theorem signed_malformed_payload_answered_500:
  "responses (post_webhooks_shopify_orders (example_env True)
        (signed_request ''orders/create'' ''{\"id\":42''))
     = [(500, JObj [(''error'', JStr ''Internal server error'')])]"
  by (simp add: example_defs endpoint_defs)

section \<open>The retry loop of the internal synchronisation\<close>

declare sync_loop.simps [simp del]

lemma String_of_int_3: "String_of_int 3 = ''3''"
  by (simp add: String_of_int_def digit_def)

lemma sync_loop_success:
  assumes "i < maxRetries" "call i = None"
  shows "sync_loop call od i le =
           ([InternalSync (shopifyOrderId od),
             Log Info ''Order synced successfully''
               [(''orderId'', shopifyOrderId od), (''attempt'', Val (JNum (int (i + 1))))]],
            Inr True)"
  using assms by (subst sync_loop.simps) simp

lemma sync_loop_retry:
  assumes "i < maxRetries - 1" "call i = Some e" "j = i + 1"
  shows "sync_loop call od i le =
           apfst ((@) [InternalSync (shopifyOrderId od),
                       Log Warn ''Retry sync after error''
                         [(''orderId'', shopifyOrderId od),
                          (''attempt'', Val (JNum (int (i + 1)))),
                          (''delay'', Val (JNum (int (2 ^ i * 1000)))),
                          (''error'', Val (JStr (message e)))],
                       Sleep (2 ^ i * 1000)])
             (sync_loop call od j (Some e))"
proof -
  from assms have "i < maxRetries" by simp
  with assms show ?thesis by (subst sync_loop.simps) simp
qed

lemma sync_loop_last:
  assumes "i = maxRetries - 1" "call i = Some e"
  shows "sync_loop call od i le =
           ([InternalSync (shopifyOrderId od)],
            Inl (Error (''Failed to sync after 3 attempts: '' @ message e)))"
proof -
  have "sync_loop call od (i + 1) (Some e) =
          ([], Inl (Error (''Failed to sync after 3 attempts: '' @ message e)))"
    using assms by (subst sync_loop.simps) (simp add: maxRetries_def String_of_int_3)
  with assms show ?thesis
    by (subst sync_loop.simps) (simp add: maxRetries_def)
qed

lemma sync_first_try:
  assumes "call 0 = None"
  shows "syncOrderToInternalSystem call od =
        ([InternalSync (shopifyOrderId od),
          Log Info ''Order synced successfully''
            [(''orderId'', shopifyOrderId od), (''attempt'', Val (JNum 1))]],
         Inr True)"
  using assms by (simp add: syncOrderToInternalSystem_def sync_loop_success maxRetries_def)

lemma sync_second_try:
  assumes "call 0 = Some e0" "call 1 = None"
  shows "syncOrderToInternalSystem call od =
        ([InternalSync (shopifyOrderId od),
          Log Warn ''Retry sync after error''
            [(''orderId'', shopifyOrderId od), (''attempt'', Val (JNum 1)),
             (''delay'', Val (JNum 1000)), (''error'', Val (JStr (message e0)))],
          Sleep 1000,
          InternalSync (shopifyOrderId od),
          Log Info ''Order synced successfully''
            [(''orderId'', shopifyOrderId od), (''attempt'', Val (JNum 2))]],
         Inr True)"
proof -
  have "sync_loop call od 1 (Some e0) =
        ([InternalSync (shopifyOrderId od),
          Log Info ''Order synced successfully''
            [(''orderId'', shopifyOrderId od), (''attempt'', Val (JNum 2))]],
         Inr True)"
    using assms sync_loop_success[of 1 call od "Some e0"] by (simp add: maxRetries_def)
  with assms show ?thesis
    using sync_loop_retry[of 0 call e0 1 od None]
    by (simp add: syncOrderToInternalSystem_def maxRetries_def)
qed

lemma sync_third_try:
  assumes "call 0 = Some e0" "call 1 = Some e1" "call 2 = None"
  shows "syncOrderToInternalSystem call od =
        ([InternalSync (shopifyOrderId od),
          Log Warn ''Retry sync after error''
            [(''orderId'', shopifyOrderId od), (''attempt'', Val (JNum 1)),
             (''delay'', Val (JNum 1000)), (''error'', Val (JStr (message e0)))],
          Sleep 1000,
          InternalSync (shopifyOrderId od),
          Log Warn ''Retry sync after error''
            [(''orderId'', shopifyOrderId od), (''attempt'', Val (JNum 2)),
             (''delay'', Val (JNum 2000)), (''error'', Val (JStr (message e1)))],
          Sleep 2000,
          InternalSync (shopifyOrderId od),
          Log Info ''Order synced successfully''
            [(''orderId'', shopifyOrderId od), (''attempt'', Val (JNum 3))]],
         Inr True)"
proof -
  have "sync_loop call od 2 (Some e1) =
        ([InternalSync (shopifyOrderId od),
          Log Info ''Order synced successfully''
            [(''orderId'', shopifyOrderId od), (''attempt'', Val (JNum 3))]],
         Inr True)"
    using assms sync_loop_success[of 2 call od "Some e1"] by (simp add: maxRetries_def)
  with assms show ?thesis
    using sync_loop_retry[of 0 call e0 1 od None] sync_loop_retry[of 1 call e1 2 od "Some e0"]
    by (simp add: syncOrderToInternalSystem_def maxRetries_def)
qed

lemma sync_three_failures:
  assumes "call 0 = Some e0" "call 1 = Some e1" "call 2 = Some e2"
  shows "syncOrderToInternalSystem call od =
        ([InternalSync (shopifyOrderId od),
          Log Warn ''Retry sync after error''
            [(''orderId'', shopifyOrderId od), (''attempt'', Val (JNum 1)),
             (''delay'', Val (JNum 1000)), (''error'', Val (JStr (message e0)))],
          Sleep 1000,
          InternalSync (shopifyOrderId od),
          Log Warn ''Retry sync after error''
            [(''orderId'', shopifyOrderId od), (''attempt'', Val (JNum 2)),
             (''delay'', Val (JNum 2000)), (''error'', Val (JStr (message e1)))],
          Sleep 2000,
          InternalSync (shopifyOrderId od)],
         Inl (Error (''Failed to sync after 3 attempts: '' @ message e2)))"
proof -
  have "sync_loop call od 2 (Some e1) =
        ([InternalSync (shopifyOrderId od)],
         Inl (Error (''Failed to sync after 3 attempts: '' @ message e2)))"
    using assms sync_loop_last[of 2 call e2 od "Some e1"] by (simp add: maxRetries_def)
  with assms show ?thesis
    using sync_loop_retry[of 0 call e0 1 od None] sync_loop_retry[of 1 call e1 2 od "Some e0"]
    by (simp add: syncOrderToInternalSystem_def maxRetries_def)
qed

lemma sync_calls_bound: "length (sync_calls (fst (syncOrderToInternalSystem call od))) \<le> 3"
proof (cases "call 0")
  case None
  then show ?thesis by (simp add: sync_first_try)
next
  case e0: (Some e0)
  show ?thesis
  proof (cases "call 1")
    case None
    with e0 show ?thesis by (simp add: sync_second_try)
  next
    case e1: (Some e1)
    show ?thesis
    proof (cases "call 2")
      case None
      with e0 e1 show ?thesis by (simp add: sync_third_try)
    next
      case (Some e2)
      with e0 e1 show ?thesis by (simp add: sync_three_failures)
    qed
  qed
qed

section \<open>The processor\<close>


lemma sync_calls_append: "sync_calls (xs @ ys) = sync_calls xs @ sync_calls ys"
  by (induction xs rule: sync_calls.induct) auto

lemma fst_then_do:
  "fst (then_do a f) = fst a @ (case snd a of Inl e \<Rightarrow> [] | Inr x \<Rightarrow> fst (f x))"
  by (cases a; cases "snd a") auto

lemma snd_then_do:
  "snd (then_do a f) = (case snd a of Inl e \<Rightarrow> Inl e | Inr x \<Rightarrow> snd (f x))"
  by (cases a; cases "snd a") auto



lemma sync_calls_dispatch_topic:
  "length (sync_calls (fst (dispatch_topic call tp pl))) \<le> 3"
  using sync_calls_bound[of call]
  by (simp add: dispatch_topic_def handleOrderCreate_def handleOrderUpdate_def
        handleOrderPaid_def handleOrderFulfilled_def
        fst_then_do snd_then_do sync_calls_append emit_def evaluate_def
      split: sum.splits)

lemma dispatch_unknown_topic:
  assumes "tp \<notin> {Some ''orders/create'', Some ''orders/updated'', Some ''orders/paid'',
                  Some ''orders/fulfilled''}"
  shows "dispatch_topic call tp pl =
           ([Log Warn ''Unknown webhook topic'' [(''topic'', opt_str tp)]], Inr ())"
  using assms by (simp add: dispatch_topic_def emit_def)

lemma process_order_eq:
  assumes "get_prop (payload d) ''id'' = Inr oid"
  shows "process_order call \<lparr>job_id = jid, data = d, attemptsMade = n\<rparr> =
     (case dispatch_topic call (topic d) (payload d) of
        (evs, Inr u) \<Rightarrow>
          (Log Info ''Processing order''
             [(''jobId'', Val (JNum (int jid))), (''orderId'', oid),
              (''attempt'', Val (JNum (int (n + 1)))),
              (''maxAttempts'', Val (JNum (int MAX_RETRIES)))]
           # evs
           @ [Log Info ''Order processed successfully''
                [(''jobId'', Val (JNum (int jid))), (''orderId'', oid),
                 (''attempt'', Val (JNum (int (n + 1))))]],
           Inr (JObj (object_literal [(''success'', Val (JBool True)), (''orderId'', oid)])))
      | (evs, Inl e) \<Rightarrow>
          (Log Info ''Processing order''
             [(''jobId'', Val (JNum (int jid))), (''orderId'', oid),
              (''attempt'', Val (JNum (int (n + 1)))),
              (''maxAttempts'', Val (JNum (int MAX_RETRIES)))]
           # evs
           @ [Log Err ''Error processing order''
                [(''jobId'', Val (JNum (int jid))), (''orderId'', oid),
                 (''attempt'', Val (JNum (int (n + 1)))),
                 (''maxAttempts'', Val (JNum (int MAX_RETRIES))),
                 (''error'', Val (JStr (message e)))]]
           @ (if n + 1 \<ge> MAX_RETRIES
              then sendFailureAlert
                     [(''orderId'', oid), (''error'', Val (JStr (message e))),
                      (''attempts'', Val (JNum (int (n + 1)))),
                      (''shopDomain'', opt_str (shopDomain d))]
              else []),
           Inl e))"
proof -
  obtain evs r where dt: "dispatch_topic call (topic d) (payload d) = (evs, r)"
    by (cases "dispatch_topic call (topic d) (payload d)")
  show ?thesis
    using assms dt
    by (cases r) (simp_all add: process_order_def Let_def evaluate_def emit_def ok_def)
qed


lemma process_order_fails:
  assumes "get_prop (payload d) ''id'' = Inr oid"
    and "snd (dispatch_topic call (topic d) (payload d)) = Inl e"
  shows "snd (process_order call \<lparr>job_id = jid, data = d, attemptsMade = n\<rparr>) = Inl e"
proof -
  from assms(2) obtain evs where "dispatch_topic call (topic d) (payload d) = (evs, Inl e)"
    by (cases "dispatch_topic call (topic d) (payload d)") auto
  then show ?thesis by (simp add: process_order_eq[OF assms(1)])
qed

lemma sync_calls_process_order:
  "length (sync_calls (fst (process_order call jb))) \<le> 3"
proof -
  obtain jid d n where jb: "jb = \<lparr>job_id = jid, data = d, attemptsMade = n\<rparr>"
    by (cases jb) simp
  show ?thesis
  proof (cases "get_prop (payload d) ''id''")
    case (Inl e)
    then show ?thesis by (simp add: jb process_order_def Let_def evaluate_def)
  next
    case (Inr oid)
    obtain evs r where dt: "dispatch_topic call (topic d) (payload d) = (evs, r)"
      by (cases "dispatch_topic call (topic d) (payload d)")
    then have "length (sync_calls evs) \<le> 3"
      using sync_calls_dispatch_topic[of call "topic d" "payload d"] by simp
    then show ?thesis
      using dt
      by (cases r) (simp_all add: jb process_order_eq[OF Inr] sync_calls_append sendFailureAlert_def)
  qed
qed

lemmas handler_defs = dispatch_topic_def handleOrderCreate_def handleOrderUpdate_def
  handleOrderPaid_def handleOrderFulfilled_def order_data_of_def line_items_of_def
  line_item_of_def evaluate_def emit_def ok_def


lemma empty_order_id: "get_prop (payload empty_order) ''id'' = Inr (Val (JNum 42))"
  by (simp add: empty_order_def)



lemma always_down_sync:
  "snd (syncOrderToInternalSystem always_down od)
     = Inl (Error ''Failed to sync after 3 attempts: HTTP 503 on call 3'')"
proof -
  have d: "String_of_int 1 = ''1''" "String_of_int 2 = ''2''" "String_of_int 3 = ''3''"
    by (simp_all add: String_of_int_def digit_def)
  have c: "always_down 0 = Some (Error ''HTTP 503 on call 1'')"
    "always_down 1 = Some (Error ''HTTP 503 on call 2'')"
    "always_down 2 = Some (Error ''HTTP 503 on call 3'')"
    by (simp_all add: always_down_def d)
  show ?thesis
    using sync_loop_retry[of 0 always_down _ 1 od None, OF _ c(1)]
      sync_loop_retry[of 1 always_down _ 2 od, OF _ c(2)]
      sync_loop_last[of 2 always_down _ od, OF _ c(3)]
    by (simp add: syncOrderToInternalSystem_def maxRetries_def)
qed

lemma empty_order_dispatch:
  "snd (dispatch_topic always_down (topic empty_order) (payload empty_order))
     = Inl (Error ''Failed to sync after 3 attempts: HTTP 503 on call 3'')"
  by (simp add: handler_defs empty_order_def snd_then_do always_down_sync)

lemma empty_order_fails:
  "snd (process_order always_down \<lparr>job_id = jid, data = empty_order, attemptsMade = n\<rparr>)
     = Inl (Error ''Failed to sync after 3 attempts: HTTP 503 on call 3'')"
  by (rule process_order_fails[OF empty_order_id empty_order_dispatch])

lemma sync_in_one_attempt:
  "length (sync_calls (fst (process_order always_down
      \<lparr>job_id = 7, data = empty_order, attemptsMade = 0\<rparr>))) = 3"
proof -
  have d: "String_of_int 1 = ''1''" "String_of_int 2 = ''2''" "String_of_int 3 = ''3''"
    by (simp_all add: String_of_int_def digit_def)
  have c: "always_down 0 = Some (Error ''HTTP 503 on call 1'')"
    "always_down 1 = Some (Error ''HTTP 503 on call 2'')"
    "always_down 2 = Some (Error ''HTTP 503 on call 3'')"
    by (simp_all add: always_down_def d)
  show ?thesis
    by (simp add: process_order_def Let_def handler_defs empty_order_def fst_then_do snd_then_do
          sync_three_failures[OF c] sync_calls_append MAX_RETRIES_def)
qed

text \<open>
  Claim C10. Whatever the internal system does, \<^verbatim>\<open>syncOrderToInternalSystem\<close> calls it
  at most three times. It returns \<^verbatim>\<open>true\<close> at the first call that completes; after a
  failed first call it logs, sleeps 1000 ms and calls again; after a failed second call it
  logs, sleeps 2000 ms and calls a third time; after the third failure it neither logs nor
  sleeps, and throws an error whose message ends with the message of that last failure.
  The loop takes no argument from the job or the queue, and one attempt of the queue on a
  job calls the internal system at most three times.
\<close>

theorem sync_retry_loop:
  "(call 0 = None \<longrightarrow>
      syncOrderToInternalSystem call od =
        ([InternalSync (shopifyOrderId od),
          Log Info ''Order synced successfully''
            [(''orderId'', shopifyOrderId od), (''attempt'', Val (JNum 1))]],
         Inr True))
   \<and> (\<forall>e0. call 0 = Some e0 \<and> call 1 = None \<longrightarrow>
      syncOrderToInternalSystem call od =
        ([InternalSync (shopifyOrderId od),
          Log Warn ''Retry sync after error''
            [(''orderId'', shopifyOrderId od), (''attempt'', Val (JNum 1)),
             (''delay'', Val (JNum 1000)), (''error'', Val (JStr (message e0)))],
          Sleep 1000,
          InternalSync (shopifyOrderId od),
          Log Info ''Order synced successfully''
            [(''orderId'', shopifyOrderId od), (''attempt'', Val (JNum 2))]],
         Inr True))
   \<and> (\<forall>e0 e1. call 0 = Some e0 \<and> call 1 = Some e1 \<and> call 2 = None \<longrightarrow>
      syncOrderToInternalSystem call od =
        ([InternalSync (shopifyOrderId od),
          Log Warn ''Retry sync after error''
            [(''orderId'', shopifyOrderId od), (''attempt'', Val (JNum 1)),
             (''delay'', Val (JNum 1000)), (''error'', Val (JStr (message e0)))],
          Sleep 1000,
          InternalSync (shopifyOrderId od),
          Log Warn ''Retry sync after error''
            [(''orderId'', shopifyOrderId od), (''attempt'', Val (JNum 2)),
             (''delay'', Val (JNum 2000)), (''error'', Val (JStr (message e1)))],
          Sleep 2000,
          InternalSync (shopifyOrderId od),
          Log Info ''Order synced successfully''
            [(''orderId'', shopifyOrderId od), (''attempt'', Val (JNum 3))]],
         Inr True))
   \<and> (\<forall>e0 e1 e2. call 0 = Some e0 \<and> call 1 = Some e1 \<and> call 2 = Some e2 \<longrightarrow>
      syncOrderToInternalSystem call od =
        ([InternalSync (shopifyOrderId od),
          Log Warn ''Retry sync after error''
            [(''orderId'', shopifyOrderId od), (''attempt'', Val (JNum 1)),
             (''delay'', Val (JNum 1000)), (''error'', Val (JStr (message e0)))],
          Sleep 1000,
          InternalSync (shopifyOrderId od),
          Log Warn ''Retry sync after error''
            [(''orderId'', shopifyOrderId od), (''attempt'', Val (JNum 2)),
             (''delay'', Val (JNum 2000)), (''error'', Val (JStr (message e1)))],
          Sleep 2000,
          InternalSync (shopifyOrderId od)],
         Inl (Error (''Failed to sync after 3 attempts: '' @ message e2))))
   \<and> length (sync_calls (fst (syncOrderToInternalSystem call od))) \<le> 3
   \<and> length (sync_calls (fst (process_order call jb))) \<le> 3"
  using sync_first_try[of call od] sync_second_try[of call _ od] sync_third_try[of call _ _ od]
    sync_three_failures[of call _ _ _ od] sync_calls_bound[of call od]
    sync_calls_process_order[of call jb]
  by blast

text \<open>
  Claim C10 at four internal systems: one that answers, one that fails once, one that fails
  twice, and one that always fails; with the last, one attempt of the queue on an order
  calls the internal system three times.
\<close>

theorem sync_retry_loop_witness:
  "syncOrderToInternalSystem (\<lambda>i. None) example_order_data =
     ([InternalSync (Val (JNum 42)),
       Log Info ''Order synced successfully''
         [(''orderId'', Val (JNum 42)), (''attempt'', Val (JNum 1))]],
      Inr True)
   \<and> snd (syncOrderToInternalSystem (\<lambda>i. if i = 0 then Some (Error ''timeout'') else None)
        example_order_data) = Inr True
   \<and> snd (syncOrderToInternalSystem (\<lambda>i. if i < 2 then Some (Error ''timeout'') else None)
        example_order_data) = Inr True
   \<and> syncOrderToInternalSystem always_down example_order_data =
     ([InternalSync (Val (JNum 42)),
       Log Warn ''Retry sync after error''
         [(''orderId'', Val (JNum 42)), (''attempt'', Val (JNum 1)),
          (''delay'', Val (JNum 1000)), (''error'', Val (JStr ''HTTP 503 on call 1''))],
       Sleep 1000,
       InternalSync (Val (JNum 42)),
       Log Warn ''Retry sync after error''
         [(''orderId'', Val (JNum 42)), (''attempt'', Val (JNum 2)),
          (''delay'', Val (JNum 2000)), (''error'', Val (JStr ''HTTP 503 on call 2''))],
       Sleep 2000,
       InternalSync (Val (JNum 42))],
      Inl (Error ''Failed to sync after 3 attempts: HTTP 503 on call 3''))
   \<and> length (sync_calls (fst (process_order always_down
        \<lparr>job_id = 7, data = empty_order, attemptsMade = 0\<rparr>))) = 3"
proof -
  have d: "String_of_int 1 = ''1''" "String_of_int 2 = ''2''" "String_of_int 3 = ''3''"
    by (simp_all add: String_of_int_def digit_def)
  have "syncOrderToInternalSystem (\<lambda>i. None) example_order_data =
     ([InternalSync (Val (JNum 42)),
       Log Info ''Order synced successfully''
         [(''orderId'', Val (JNum 42)), (''attempt'', Val (JNum 1))]],
      Inr True)"
    using sync_retry_loop[of "\<lambda>i. None" example_order_data]
    by (simp add: example_order_data_def)
  moreover have "snd (syncOrderToInternalSystem (\<lambda>i. if i = 0 then Some (Error ''timeout'') else None)
        example_order_data) = Inr True"
    using sync_retry_loop[of "\<lambda>i. if i = 0 then Some (Error ''timeout'') else None" example_order_data]
    by simp
  moreover have "snd (syncOrderToInternalSystem (\<lambda>i. if i < 2 then Some (Error ''timeout'') else None)
        example_order_data) = Inr True"
    using sync_retry_loop[of "\<lambda>i. if i < 2 then Some (Error ''timeout'') else None" example_order_data]
    by simp
  moreover have "syncOrderToInternalSystem always_down example_order_data =
     ([InternalSync (Val (JNum 42)),
       Log Warn ''Retry sync after error''
         [(''orderId'', Val (JNum 42)), (''attempt'', Val (JNum 1)),
          (''delay'', Val (JNum 1000)), (''error'', Val (JStr ''HTTP 503 on call 1''))],
       Sleep 1000,
       InternalSync (Val (JNum 42)),
       Log Warn ''Retry sync after error''
         [(''orderId'', Val (JNum 42)), (''attempt'', Val (JNum 2)),
          (''delay'', Val (JNum 2000)), (''error'', Val (JStr ''HTTP 503 on call 2''))],
       Sleep 2000,
       InternalSync (Val (JNum 42))],
      Inl (Error ''Failed to sync after 3 attempts: HTTP 503 on call 3''))"
    using sync_retry_loop[of always_down example_order_data]
    by (simp add: example_order_data_def always_down_def d)
  ultimately show ?thesis using sync_in_one_attempt by blast
qed

section \<open>The queue, as the specification describes it\<close>

declare run_job.simps [simp del]

lemma run_job_Pending:
  assumes "state j = Pending" "attemptCount j < attempts opts"
  shows "run_job calls elapsed opts j =
     (let res = process_order (calls (attemptCount j + 1))
                  \<lparr>job_id = jobId j, data = job_event j, attemptsMade = attemptCount j\<rparr>;
          now = nextEligibleAt j + elapsed (attemptCount j + 1);
          j' = retry_scheduler opts now (j\<lparr>state := Running, attemptCount := attemptCount j + 1\<rparr>)
                 (snd res)
      in (now, fst res, j') # run_job calls elapsed opts j')"
  using assms by (subst run_job.simps) (simp add: dequeueReady_def Let_def)

lemma run_job_not_Pending: "state j \<noteq> Pending \<Longrightarrow> run_job calls elapsed opts j = []"
  by (subst run_job.simps) (simp add: dequeueReady_def)

lemma enqueued_by_endpoint:
  assumes "(jid, d, opts) \<in> set (enqueued (post_webhooks_shopify_orders env req))"
  shows "(\<exists>oid. get_prop (payload d) ''id'' = Inr oid) \<and> opts = job_opts"
proof (cases "snd (verifyShopifyWebhook env req)")
  case None
  then have "post_webhooks_shopify_orders env req = fst (verifyShopifyWebhook env req)"
    by (rule post_reply)
  moreover have "enqueued (fst (verifyShopifyWebhook env req)) = []"
    by (auto simp: verifyShopifyWebhook_def verify_try_def missing_hmac_def invalid_hmac_def
          Let_def split: option.splits sum.splits if_splits)
  ultimately show ?thesis using assms by simp
next
  case (Some pl)
  then have p: "post_webhooks_shopify_orders env req =
     [Log Info ''HMAC signature verified successfully''
        [(''topic'', opt_str (topic_header req)), (''shop'', opt_str (shop_header req))]]
     @ orders_route env req pl"
    by (rule post_next)
  show ?thesis
  proof (cases "get_prop pl ''id''")
    case (Inl e)
    with p assms show ?thesis by (simp add: orders_route_def route_catch_def)
  next
    case (Inr oid)
    then obtain num where n: "get_prop pl ''order_number'' = Inr num"
      using get_prop_same by blast
    show ?thesis
    proof (cases "queue_add env \<lparr>payload = pl, topic = topic_header req, shopDomain = shop_header req\<rparr> job_opts")
      case (Inl e)
      with p assms Inr n show ?thesis by (simp add: orders_route_queue_down)
    next
      case q: (Inr k)
      with p assms Inr n show ?thesis by (simp add: orders_route_queue_up)
    qed
  qed
qed

text \<open>
  Claim C7. For every job the endpoint has put in the queue, if its topic is none of the
  four the processor knows, the processor calls no handler: at any attempt its effects are
  the log line of the start, the warning \<^verbatim>\<open>Unknown webhook topic\<close> with the topic, and
  the log line of the success, and it returns \<^verbatim>\<open>{success: true, orderId}\<close>. The queue
  runs such a job once and leaves it Succeeded.
\<close>

theorem unknown_topic_succeeds:
  assumes "(jid, d, opts) \<in> set (enqueued (post_webhooks_shopify_orders env req))"
    and "topic d \<notin> {Some ''orders/create'', Some ''orders/updated'', Some ''orders/paid'',
                       Some ''orders/fulfilled''}"
  shows "\<exists>oid. get_prop (payload d) ''id'' = Inr oid
       \<and> process_order call \<lparr>job_id = jid, data = d, attemptsMade = n\<rparr> =
           ([Log Info ''Processing order''
               [(''jobId'', Val (JNum (int jid))), (''orderId'', oid),
                (''attempt'', Val (JNum (int (n + 1)))),
                (''maxAttempts'', Val (JNum (int MAX_RETRIES)))],
             Log Warn ''Unknown webhook topic'' [(''topic'', opt_str (topic d))],
             Log Info ''Order processed successfully''
               [(''jobId'', Val (JNum (int jid))), (''orderId'', oid),
                (''attempt'', Val (JNum (int (n + 1))))]],
            Inr (JObj (object_literal [(''success'', Val (JBool True)), (''orderId'', oid)])))
       \<and> map (\<lambda>(now, evs, j). (attemptCount j, state j))
           (run_job calls elapsed opts (enqueue jid t0 d)) = [(1, Succeeded)]"
proof -
  from assms(1) obtain oid where oid: "get_prop (payload d) ''id'' = Inr oid"
    and opts: "opts = job_opts"
    using enqueued_by_endpoint by blast
  have po: "process_order c \<lparr>job_id = jid, data = d, attemptsMade = k\<rparr> =
           ([Log Info ''Processing order''
               [(''jobId'', Val (JNum (int jid))), (''orderId'', oid),
                (''attempt'', Val (JNum (int (k + 1)))),
                (''maxAttempts'', Val (JNum (int MAX_RETRIES)))],
             Log Warn ''Unknown webhook topic'' [(''topic'', opt_str (topic d))],
             Log Info ''Order processed successfully''
               [(''jobId'', Val (JNum (int jid))), (''orderId'', oid),
                (''attempt'', Val (JNum (int (k + 1))))]],
            Inr (JObj (object_literal [(''success'', Val (JBool True)), (''orderId'', oid)])))"
    for c k
    using assms(2) by (simp add: process_order_eq[OF oid] dispatch_unknown_topic)
  have rj: "map (\<lambda>(now, evs, j). (attemptCount j, state j))
           (run_job calls elapsed opts (enqueue jid t0 d)) = [(1, Succeeded)]"
    by (simp add: run_job_Pending run_job_not_Pending opts enqueue_def job_opts_def
          MAX_RETRIES_def Let_def retry_scheduler_def po)
  show ?thesis
    by (rule exI[of _ oid]) (simp only: oid po[of call n] rj)
qed

text \<open>
  Claim C7 at the job the endpoint queues for a request with the topic
  \<^verbatim>\<open>orders/cancelled\<close>.
\<close>

theorem unknown_topic_succeeds_witness:
  "(7, \<lparr>payload = JObj [(''id'', JNum 42)], topic = Some ''orders/cancelled'',
        shopDomain = Some ''demo.myshopify.com''\<rparr>, job_opts)
     \<in> set (enqueued (post_webhooks_shopify_orders (example_env True)
              (signed_request ''orders/cancelled'' ''{\"id\":42}'')))
   \<and> process_order (\<lambda>i. None)
        \<lparr>job_id = 7,
         data = \<lparr>payload = JObj [(''id'', JNum 42)], topic = Some ''orders/cancelled'',
                 shopDomain = Some ''demo.myshopify.com''\<rparr>,
         attemptsMade = 0\<rparr> =
       ([Log Info ''Processing order''
           [(''jobId'', Val (JNum 7)), (''orderId'', Val (JNum 42)),
            (''attempt'', Val (JNum 1)), (''maxAttempts'', Val (JNum 5))],
         Log Warn ''Unknown webhook topic'' [(''topic'', Val (JStr ''orders/cancelled''))],
         Log Info ''Order processed successfully''
           [(''jobId'', Val (JNum 7)), (''orderId'', Val (JNum 42)),
            (''attempt'', Val (JNum 1))]],
        Inr (JObj [(''success'', JBool True), (''orderId'', JNum 42)]))
   \<and> map (\<lambda>(now, evs, j). (attemptCount j, state j))
        (run_job (\<lambda>n i. None) (\<lambda>n. 0) job_opts
          (enqueue 7 0 \<lparr>payload = JObj [(''id'', JNum 42)], topic = Some ''orders/cancelled'',
                         shopDomain = Some ''demo.myshopify.com''\<rparr>)) = [(1, Succeeded)]"
proof -
  let ?d = "\<lparr>payload = JObj [(''id'', JNum 42)], topic = Some ''orders/cancelled'',
        shopDomain = Some ''demo.myshopify.com''\<rparr>"
  have e: "(7, ?d, job_opts)
     \<in> set (enqueued (post_webhooks_shopify_orders (example_env True)
              (signed_request ''orders/cancelled'' ''{\"id\":42}'')))"
    by (simp add: example_defs endpoint_defs)
  have u: "topic ?d \<notin> {Some ''orders/create'', Some ''orders/updated'', Some ''orders/paid'',
                       Some ''orders/fulfilled''}"
    by simp
  from unknown_topic_succeeds[OF e u, of "\<lambda>i. None" 0 "\<lambda>n i. None" "\<lambda>n. 0" 0] e
  show ?thesis
    by (auto simp: MAX_RETRIES_def)
qed

lemma run_job_all_fail:
  assumes f1: "snd (process_order (calls 1) \<lparr>job_id = jid, data = d, attemptsMade = 0\<rparr>) = Inl e1"
    and f2: "snd (process_order (calls 2) \<lparr>job_id = jid, data = d, attemptsMade = 1\<rparr>) = Inl e2"
    and f3: "snd (process_order (calls 3) \<lparr>job_id = jid, data = d, attemptsMade = 2\<rparr>) = Inl e3"
    and f4: "snd (process_order (calls 4) \<lparr>job_id = jid, data = d, attemptsMade = 3\<rparr>) = Inl e4"
    and f5: "snd (process_order (calls 5) \<lparr>job_id = jid, data = d, attemptsMade = 4\<rparr>) = Inl e5"
    and n1: "n1 = t0 + elapsed 1" and n2: "n2 = n1 + 1000 + elapsed 2"
    and n3: "n3 = n2 + 2000 + elapsed 3" and n4: "n4 = n3 + 4000 + elapsed 4"
    and n5: "n5 = n4 + 8000 + elapsed 5"
  shows "run_job calls elapsed job_opts (enqueue jid t0 d) =
    [(n1, fst (process_order (calls 1) \<lparr>job_id = jid, data = d, attemptsMade = 0\<rparr>),
      \<lparr>jobId = jid, job_event = d, state = Pending, attemptCount = 1,
       nextEligibleAt = n1 + 1000, lastError = Some e1\<rparr>),
     (n2, fst (process_order (calls 2) \<lparr>job_id = jid, data = d, attemptsMade = 1\<rparr>),
      \<lparr>jobId = jid, job_event = d, state = Pending, attemptCount = 2,
       nextEligibleAt = n2 + 2000, lastError = Some e2\<rparr>),
     (n3, fst (process_order (calls 3) \<lparr>job_id = jid, data = d, attemptsMade = 2\<rparr>),
      \<lparr>jobId = jid, job_event = d, state = Pending, attemptCount = 3,
       nextEligibleAt = n3 + 4000, lastError = Some e3\<rparr>),
     (n4, fst (process_order (calls 4) \<lparr>job_id = jid, data = d, attemptsMade = 3\<rparr>),
      \<lparr>jobId = jid, job_event = d, state = Pending, attemptCount = 4,
       nextEligibleAt = n4 + 8000, lastError = Some e4\<rparr>),
     (n5, fst (process_order (calls 5) \<lparr>job_id = jid, data = d, attemptsMade = 4\<rparr>),
      \<lparr>jobId = jid, job_event = d, state = Exhausted, attemptCount = 5,
       nextEligibleAt = n5 + 16000, lastError = Some e5\<rparr>)]"
proof -
  let ?run = "run_job calls elapsed job_opts"
  let ?j1 = "\<lparr>jobId = jid, job_event = d, state = Pending, attemptCount = 1,
       nextEligibleAt = n1 + 1000, lastError = Some e1\<rparr>"
  let ?j2 = "\<lparr>jobId = jid, job_event = d, state = Pending, attemptCount = 2,
       nextEligibleAt = n2 + 2000, lastError = Some e2\<rparr>"
  let ?j3 = "\<lparr>jobId = jid, job_event = d, state = Pending, attemptCount = 3,
       nextEligibleAt = n3 + 4000, lastError = Some e3\<rparr>"
  let ?j4 = "\<lparr>jobId = jid, job_event = d, state = Pending, attemptCount = 4,
       nextEligibleAt = n4 + 8000, lastError = Some e4\<rparr>"
  let ?j5 = "\<lparr>jobId = jid, job_event = d, state = Exhausted, attemptCount = 5,
       nextEligibleAt = n5 + 16000, lastError = Some e5\<rparr>"
  have a: "attempts job_opts = 5" "backoff_delay job_opts = 1000"
    by (simp_all add: job_opts_def MAX_RETRIES_def INITIAL_RETRY_DELAY_def)
  have s1: "?run (enqueue jid t0 d) =
      (n1, fst (process_order (calls 1) \<lparr>job_id = jid, data = d, attemptsMade = 0\<rparr>), ?j1) # ?run ?j1"
    using f1 n1 by (simp add: run_job_Pending enqueue_def a Let_def retry_scheduler_def)
  have s2: "?run ?j1 =
      (n2, fst (process_order (calls 2) \<lparr>job_id = jid, data = d, attemptsMade = 1\<rparr>), ?j2) # ?run ?j2"
    using f2 n2 by (simp add: run_job_Pending a Let_def retry_scheduler_def numeral_2_eq_2[symmetric])
  have s3: "?run ?j2 =
      (n3, fst (process_order (calls 3) \<lparr>job_id = jid, data = d, attemptsMade = 2\<rparr>), ?j3) # ?run ?j3"
    using f3 n3 by (simp add: run_job_Pending a Let_def retry_scheduler_def)
  have s4: "?run ?j3 =
      (n4, fst (process_order (calls 4) \<lparr>job_id = jid, data = d, attemptsMade = 3\<rparr>), ?j4) # ?run ?j4"
    using f4 n4 by (simp add: run_job_Pending a Let_def retry_scheduler_def)
  have s5: "?run ?j4 =
      (n5, fst (process_order (calls 5) \<lparr>job_id = jid, data = d, attemptsMade = 4\<rparr>), ?j5) # ?run ?j5"
    using f5 n5 by (simp add: run_job_Pending a Let_def retry_scheduler_def)
  have s6: "?run ?j5 = []"
    by (simp add: run_job_not_Pending)
  show ?thesis
    by (simp only: s1 s2 s3 s4 s5 s6)
qed

lemma fails_each:
  assumes "\<forall>n\<in>{1..m}. isl (snd (process_order (calls n) \<lparr>job_id = jid, data = d, attemptsMade = n - 1\<rparr>))"
    and "1 \<le> k" "k \<le> m"
  shows "\<exists>e. snd (process_order (calls k) \<lparr>job_id = jid, data = d, attemptsMade = k - 1\<rparr>) = Inl e"
proof -
  from assms have "isl (snd (process_order (calls k) \<lparr>job_id = jid, data = d, attemptsMade = k - 1\<rparr>))"
    by simp
  then show ?thesis by (auto simp: isl_def)
qed

text \<open>
  Claim C4. A job with the options of \<^verbatim>\<open>processWebhookAsync\<close> (five attempts, initial
  delay 1000 ms) whose every attempt fails is attempted five times and no more. The failure
  of attempt \<open>n\<close> sets its eligibility time \<open>INITIAL_RETRY_DELAY * 2^(n - 1)\<close> after the
  time the failure is recorded: 1000, 2000, 4000, 8000 and 16000 ms. Attempt \<open>n + 1\<close>
  starts at that time, so the delay before it is \<open>INITIAL_RETRY_DELAY * 2^(n - 1)\<close>. The
  job is Pending after the failures of attempts 1 to 4 and Exhausted after the fifth.
\<close>

theorem failing_job_backoff:
  assumes "\<forall>n\<in>{1..5}. isl (snd (process_order (calls n)
             \<lparr>job_id = jid, data = d, attemptsMade = n - 1\<rparr>))"
  shows "map (\<lambda>(now, evs, j). (now, attemptCount j, state j, nextEligibleAt j))
           (run_job calls elapsed job_opts (enqueue jid t0 d)) =
         (let n1 = t0 + elapsed 1;
              n2 = n1 + 1000 + elapsed 2;
              n3 = n2 + 2000 + elapsed 3;
              n4 = n3 + 4000 + elapsed 4;
              n5 = n4 + 8000 + elapsed 5
          in [(n1, 1, Pending, n1 + 1000),
              (n2, 2, Pending, n2 + 2000),
              (n3, 3, Pending, n3 + 4000),
              (n4, 4, Pending, n4 + 8000),
              (n5, 5, Exhausted, n5 + 16000)])
       \<and> map (\<lambda>(now, evs, j). nextEligibleAt j - now)
           (run_job calls elapsed job_opts (enqueue jid t0 d)) =
         map (\<lambda>n. INITIAL_RETRY_DELAY * 2 ^ (n - 1)) [1, 2, 3, 4, 5]"
proof -
  obtain e1 where f1: "snd (process_order (calls 1) \<lparr>job_id = jid, data = d, attemptsMade = 0\<rparr>) = Inl e1"
    using fails_each[OF assms, of 1] by auto
  obtain e2 where f2: "snd (process_order (calls 2) \<lparr>job_id = jid, data = d, attemptsMade = 1\<rparr>) = Inl e2"
    using fails_each[OF assms, of 2] by auto
  obtain e3 where f3: "snd (process_order (calls 3) \<lparr>job_id = jid, data = d, attemptsMade = 2\<rparr>) = Inl e3"
    using fails_each[OF assms, of 3] by auto
  obtain e4 where f4: "snd (process_order (calls 4) \<lparr>job_id = jid, data = d, attemptsMade = 3\<rparr>) = Inl e4"
    using fails_each[OF assms, of 4] by auto
  obtain e5 where f5: "snd (process_order (calls 5) \<lparr>job_id = jid, data = d, attemptsMade = 4\<rparr>) = Inl e5"
    using fails_each[OF assms, of 5] by auto
  show ?thesis
    by (simp add: run_job_all_fail[OF f1 f2 f3 f4 f5 refl refl refl refl refl] Let_def
          INITIAL_RETRY_DELAY_def)
qed

text \<open>
  Claim C4 at an order whose synchronisation always fails, each attempt taking 3000 ms:
  the failures are recorded at 3000, 7000, 12000, 19000 and 30000, and the eligibility
  times are 1000, 2000, 4000, 8000 and 16000 ms later.
\<close>

theorem failing_job_backoff_witness:
  "isl (snd (process_order always_down \<lparr>job_id = 7, data = empty_order, attemptsMade = 0\<rparr>))
   \<and> isl (snd (process_order always_down \<lparr>job_id = 7, data = empty_order, attemptsMade = 4\<rparr>))
   \<and> map (\<lambda>(now, evs, j). (now, attemptCount j, state j, nextEligibleAt j))
        (run_job (\<lambda>n. always_down) (\<lambda>n. 3000) job_opts (enqueue 7 0 empty_order)) =
       [(3000, 1, Pending, 4000), (7000, 2, Pending, 9000), (12000, 3, Pending, 16000),
        (19000, 4, Pending, 27000), (30000, 5, Exhausted, 46000)]
   \<and> map (\<lambda>(now, evs, j). nextEligibleAt j - now)
        (run_job (\<lambda>n. always_down) (\<lambda>n. 3000) job_opts (enqueue 7 0 empty_order)) =
       [1000, 2000, 4000, 8000, 16000]"
proof -
  have h: "\<forall>n\<in>{1..5}. isl (snd (process_order ((\<lambda>n. always_down) n)
             \<lparr>job_id = 7, data = empty_order, attemptsMade = n - 1\<rparr>))"
    by (simp add: empty_order_fails)
  from failing_job_backoff[OF h, of "\<lambda>n. 3000" 0] show ?thesis
    by (simp add: empty_order_fails Let_def INITIAL_RETRY_DELAY_def)
qed




section \<open>The product list\<close>

lemma String_of_int_itemsPerPage: "String_of_int itemsPerPage = ''12''"
  by (simp add: String_of_int_def itemsPerPage_def digit_def)

lemma request_url_safe:
  assumes "safe_integer currentPage" and "safe_integer ((currentPage - 1) * 12)"
  shows "request_url b debouncedSearch currentPage =
     Some ((if debouncedSearch = [] then apiUrl b
            else apiUrl b @ ''/search?q='' @ encodeURIComponent b debouncedSearch)
           @ ''?limit=12&skip='' @ String_of_int ((currentPage - 1) * 12))"
proof -
  have "safe_integer ((currentPage - 1) * itemsPerPage)"
    using assms(2) by (simp add: itemsPerPage_def)
  moreover have "String_of_int ((currentPage - 1) * itemsPerPage) =
      String_of_int ((currentPage - 1) * 12)"
    by (simp add: itemsPerPage_def)
  ultimately show ?thesis
    using assms(1) by (simp add: request_url_def Let_def String_of_int_itemsPerPage)
qed

lemma request_url_unsafe:
  "\<not> (safe_integer currentPage \<and> safe_integer ((currentPage - 1) * 12)) \<Longrightarrow>
   request_url b debouncedSearch currentPage = None"
  by (simp add: request_url_def Let_def itemsPerPage_def)




text \<open>
  With a search term the parameters are appended after a second question mark, where the
  comment at the head of the component gives \<^verbatim>\<open>/search?q=phone&limit=12&skip=12\<close>: the
  URL has no parameter \<^verbatim>\<open>limit\<close> of its own. The response is consumed as without a
  search term.
\<close>

lemma search_url_example:
  "request_url (example_browser JNull) ''phone'' 2 =
     Some ''https://dummyjson.com/products/search?q=phone?limit=12&skip=12''"
  by (simp add: request_url_safe example_browser_def safe_integer_def MAX_SAFE_INTEGER_def)
     (simp add: String_of_int_def digit_def)

lemma search_page_example:
  "fetchProducts (example_browser (JObj [(''products'', JArr [JObj [(''id'', JNum 101)]]),
                                         (''total'', JNum 23)]))
       ''phone'' 2 initial_state
     = Some \<lparr>products = Val (JArr [JObj [(''id'', JNum 101)]]), totalPages = Exact 2,
             status = ''success'', error = None\<rparr>"
  by (simp add: fetchProducts_def request_url_safe example_browser_def initial_state_def
        Let_def itemsPerPage_def number_def safe_integer_def MAX_SAFE_INTEGER_def)

text \<open>
  Beyond the integers a double holds exactly the model gives no URL and no page count:
  at page \<open>2^53\<close> and at a total of \<open>2^53\<close>.
\<close>

lemma beyond_exact_integers:
  "request_url (example_browser JNull) [] 9007199254740992 = None
   \<and> page_count (total_of (\<lambda>v. NaN) (Val (JNum 9007199254740992))) = Inexact"
  by (simp add: request_url_def Let_def itemsPerPage_def number_def safe_integer_def
        MAX_SAFE_INTEGER_def)

end
